theory Spec2Isabelle
  imports Complex_Main "HOL-Library.Multiset"
begin

section \<open>Python values of the annotation pipeline\<close>

text \<open>
  The exceptions the pipeline raises or catches, all of them subclasses of \<open>Exception\<close>,
  which is what every handler of the pipeline catches.  \<open>str(e)\<close> of a \<open>KeyError\<close> puts
  the key in quotes; every other exception prints its message.
\<close>

datatype pyexc =
    KeyError string
  | ValueError string
  | TypeError string
  | RuntimeError string
  | FileNotFoundError string
  | NotADirectoryError string
  | ZeroDivisionError
  | UnboundLocalError string

fun exc_str :: "pyexc \<Rightarrow> string" where
  "exc_str (KeyError k) = [CHR 0x27] @ k @ [CHR 0x27]"
| "exc_str (ValueError m) = m"
| "exc_str (TypeError m) = m"
| "exc_str (RuntimeError m) = m"
| "exc_str (FileNotFoundError m) = m"
| "exc_str (NotADirectoryError m) = m"
| "exc_str ZeroDivisionError = ''division by zero''"
| "exc_str (UnboundLocalError v) = ''local variable '' @ v @ '' referenced before assignment''"

text \<open>
  A Python \<open>dict\<close> whose iteration order matters is an association list in insertion
  order: \<open>d[k] = v\<close> overwrites the value of an existing key in place and appends a new
  key at the end.
\<close>

fun dict_set :: "'k \<Rightarrow> 'v \<Rightarrow> ('k \<times> 'v) list \<Rightarrow> ('k \<times> 'v) list" where
  "dict_set k v [] = [(k, v)]"
| "dict_set k v ((k', v') # d) = (if k = k' then (k, v) # d else (k', v') # dict_set k v d)"

definition dict_keys :: "('k \<times> 'v) list \<Rightarrow> 'k list" where
  "dict_keys d = map fst d"

section \<open>Structures (Bio.PDB) and the spatial interface detector (utils/interface.py)\<close>

record atom =
  coord :: "real \<times> real \<times> real"
  bfactor :: real

text \<open>\<open>resseq\<close> is \<open>residue.id[1]\<close>, the residue sequence number.\<close>

record residue =
  resname :: string
  resseq :: int
  atoms :: "atom list"

type_synonym chain = "residue list"
type_synonym model = "(string \<times> chain) list"
type_synonym "structure" = "model list"

text \<open>
  \<open>THREE_TO_ONE_MAP\<close> comes from \<open>src/utils/constants.py\<close>, which is not part of the
  sources at hand; every function that reads it takes it as the parameter \<open>t31\<close>.
\<close>

type_synonym three_to_one = "string \<rightharpoonup> char"

text \<open>\<open>structure[0]\<close>: the first model, \<open>KeyError\<close> when the structure has none.\<close>

definition first_model :: "structure \<Rightarrow> pyexc + model" where
  "first_model s = (case s of [] \<Rightarrow> Inl (KeyError ''0'') | m # _ \<Rightarrow> Inr m)"

text \<open>
  \<open>Selection.unfold_entities(chain, 'A')\<close>: the atoms of a chain in file order, each kept
  with its parent residue (\<open>atom.get_parent()\<close>).
\<close>

definition unfold_atoms :: "chain \<Rightarrow> (residue \<times> atom) list" where
  "unfold_atoms ch = concat (map (\<lambda>r. map (\<lambda>a. (r, a)) (atoms r)) ch)"

definition dist2 :: "real \<times> real \<times> real \<Rightarrow> real \<times> real \<times> real \<Rightarrow> real" where
  "dist2 p q = (case p of (x1, y1, z1) \<Rightarrow> case q of (x2, y2, z2) \<Rightarrow>
     (x1 - x2) * (x1 - x2) + (y1 - y2) * (y1 - y2) + (z1 - z2) * (z1 - z2))"

definition within_cutoff :: "real \<Rightarrow> real \<times> real \<times> real \<Rightarrow> real \<times> real \<times> real \<Rightarrow> bool" where
  "within_cutoff r p q \<longleftrightarrow> 0 \<le> r \<and> dist2 p q \<le> r * r"

text \<open>
  \<open>binder_tree.query_ball_tree(target_tree, r)\<close>: for every binder atom the indices of
  the target atoms at Euclidean distance at most \<open>r\<close>.  The order inside one index list is
  left open by the library; it is taken ascending here.
\<close>

definition query_ball_tree ::
  "(residue \<times> atom) list \<Rightarrow> (residue \<times> atom) list \<Rightarrow> real \<Rightarrow> nat list list" where
  "query_ball_tree bs ts r =
     map (\<lambda>b. filter (\<lambda>j. within_cutoff r (coord (snd b)) (coord (snd (ts ! j)))) [0..<length ts]) bs"

text \<open>The loop of \<open>hotspot_residues\<close> over \<open>enumerate(pairs)\<close>.\<close>

fun hotspot_loop ::
  "three_to_one \<Rightarrow> ((residue \<times> atom) \<times> nat list) list \<Rightarrow> (int \<times> char) list \<Rightarrow> (int \<times> char) list" where
  "hotspot_loop t31 [] d = d"
| "hotspot_loop t31 ((b, close_indices) # rest) d =
     (case t31 (resname (fst b)) of
        None \<Rightarrow> hotspot_loop t31 rest d
      | Some aa \<Rightarrow>
          if close_indices \<noteq> [] then hotspot_loop t31 rest (dict_set (resseq (fst b)) aa d)
          else hotspot_loop t31 rest d)"

text \<open>
  \<open>hotspot_residues\<close>.  The argument \<open>parsed\<close> is what \<open>PDBParser.get_structure\<close> gives
  for the file: a structure, or the exception it raised.  Every exception is logged and
  raised again, so it is the \<open>Inl\<close> result.
\<close>

definition hotspot_residues ::
  "three_to_one \<Rightarrow> pyexc + structure \<Rightarrow> string \<Rightarrow> string \<Rightarrow> real \<Rightarrow> pyexc + (int \<times> char) list" where
  "hotspot_residues t31 parsed binder_chain target_chain atom_distance_cutoff =
     (case parsed of Inl e \<Rightarrow> Inl e | Inr s \<Rightarrow>
      case first_model s of Inl e \<Rightarrow> Inl e | Inr m \<Rightarrow>
      case map_of m binder_chain of
        None \<Rightarrow> Inl (ValueError (''Binder chain '' @ [CHR 0x27] @ binder_chain @ [CHR 0x27] @ '' not found in structure''))
      | Some bch \<Rightarrow>
      case map_of m target_chain of
        None \<Rightarrow> Inl (ValueError (''Target chain '' @ [CHR 0x27] @ target_chain @ [CHR 0x27] @ '' not found in structure''))
      | Some tch \<Rightarrow>
        let binder_atoms = unfold_atoms bch in
        if binder_atoms = [] then Inl (ValueError (''No atoms found in binder chain '' @ binder_chain))
        else
          let target_atoms = unfold_atoms tch in
          if target_atoms = [] then Inl (ValueError (''No atoms found in target chain '' @ target_chain))
          else
            let pairs = query_ball_tree binder_atoms target_atoms atom_distance_cutoff
            in Inr (hotspot_loop t31 (zip binder_atoms pairs) []))"

text \<open>
  The inner loop of \<open>analyze_interface_contacts\<close> over \<open>close_indices\<close>.
  \<open>target_residue_indices\<close> receives exactly the keys of \<open>target_residues\<close>, so one
  dictionary stands for both.
\<close>

fun target_loop ::
  "three_to_one \<Rightarrow> (residue \<times> atom) list \<Rightarrow> nat list \<Rightarrow> (int \<times> char) list \<Rightarrow> (int \<times> char) list" where
  "target_loop t31 ts [] d = d"
| "target_loop t31 ts (close_idx # rest) d =
     (let target_residue = fst (ts ! close_idx) in
      case t31 (resname target_residue) of
        None \<Rightarrow> target_loop t31 ts rest d
      | Some target_aa \<Rightarrow> target_loop t31 ts rest (dict_set (resseq target_residue) target_aa d))"

fun contacts_loop ::
  "three_to_one \<Rightarrow> (residue \<times> atom) list \<Rightarrow> ((residue \<times> atom) \<times> nat list) list \<Rightarrow>
   (int \<times> char) list \<times> (int \<times> char) list \<Rightarrow> (int \<times> char) list \<times> (int \<times> char) list" where
  "contacts_loop t31 ts [] acc = acc"
| "contacts_loop t31 ts ((b, close_indices) # rest) (bd, td) =
     (if close_indices \<noteq> [] then
        (case t31 (resname (fst b)) of
           None \<Rightarrow> contacts_loop t31 ts rest (bd, td)
         | Some aa \<Rightarrow>
             contacts_loop t31 ts rest
               (dict_set (resseq (fst b)) aa bd, target_loop t31 ts close_indices td))
      else contacts_loop t31 ts rest (bd, td))"

record contact_results =
  binder_residues :: "(int \<times> char) list"
  target_residues :: "(int \<times> char) list"
  target_residue_list :: "int list"
  binder_residue_list :: "int list"
  total_interface_residues :: int
  atom_contacts :: int

text \<open>
  \<open>cKDTree(np.array([...]))\<close> needs a two-dimensional array: on an empty atom list the
  array has one dimension and the constructor raises \<open>ValueError\<close>.
\<close>

definition cKDTree :: "(residue \<times> atom) list \<Rightarrow> pyexc + unit" where
  "cKDTree pts = (if pts = [] then
       Inl (ValueError ''data must be of shape (n, m), where there are n points of dimension m'')
     else Inr ())"

text \<open>
  The body of the \<open>try\<close> of \<open>analyze_interface_contacts\<close>.  It has no chain checks of its
  own: \<open>structure[0][binder_chain]\<close> raises \<open>KeyError\<close> for an absent chain.
\<close>

definition contacts_body ::
  "three_to_one \<Rightarrow> pyexc + structure \<Rightarrow> string \<Rightarrow> string \<Rightarrow> real \<Rightarrow> pyexc + contact_results" where
  "contacts_body t31 parsed binder_chain target_chain atom_distance_cutoff =
     (case parsed of Inl e \<Rightarrow> Inl e | Inr s \<Rightarrow>
      case first_model s of Inl e \<Rightarrow> Inl e | Inr m \<Rightarrow>
      case map_of m binder_chain of None \<Rightarrow> Inl (KeyError binder_chain) | Some bch \<Rightarrow>
      case map_of m target_chain of None \<Rightarrow> Inl (KeyError target_chain) | Some tch \<Rightarrow>
        let binder_atoms = unfold_atoms bch; target_atoms = unfold_atoms tch in
        case cKDTree binder_atoms of Inl e \<Rightarrow> Inl e | Inr _ \<Rightarrow>
        case cKDTree target_atoms of Inl e \<Rightarrow> Inl e | Inr _ \<Rightarrow>
          let pairs = query_ball_tree binder_atoms target_atoms atom_distance_cutoff;
              contacts = sum_list (map (\<lambda>close_indices. int (length close_indices)) pairs);
              (bd, td) = contacts_loop t31 target_atoms (zip binder_atoms pairs) ([], [])
          in Inr \<lparr> binder_residues = bd,
                   target_residues = td,
                   target_residue_list = sort (dict_keys td),
                   binder_residue_list = sort (dict_keys bd),
                   total_interface_residues = int (length bd) + int (length td),
                   atom_contacts = contacts \<rparr>)"

text \<open>
  \<open>analyze_interface_contacts\<close>: any exception of the body is logged and the function
  returns \<open>None\<close>; it never raises.
\<close>

definition analyze_interface_contacts ::
  "three_to_one \<Rightarrow> pyexc + structure \<Rightarrow> string \<Rightarrow> string \<Rightarrow> real \<Rightarrow> pyexc + contact_results option" where
  "analyze_interface_contacts t31 parsed binder_chain target_chain atom_distance_cutoff =
     (case contacts_body t31 parsed binder_chain target_chain atom_distance_cutoff of
        Inl e \<Rightarrow> Inr None
      | Inr r \<Rightarrow> Inr (Some r))"

section \<open>Secondary-structure summary (utils/dssp.py)\<close>

text \<open>
  Python's \<open>round(x, 2)\<close>: to the nearest hundredth, a tie going to the even neighbour.
  Floats are taken as exact reals.
\<close>

definition py_round2 :: "real \<Rightarrow> real" where
  "py_round2 x =
     (let y = x * 100; f = \<lfloor>y\<rfloor>; d = y - of_int f
      in (if d < 1 / 2 then of_int f
          else if 1 / 2 < d then of_int (f + 1)
          else if even f then of_int f else of_int (f + 1)) / 100)"

datatype ss_type = Helix | Sheet | Loop

definition classify_ss :: "char \<Rightarrow> ss_type" where
  "classify_ss ss =
     (if ss \<in> set ''HGI'' then Helix else if ss = CHR ''E'' then Sheet else Loop)"

text \<open>
  The four accumulators of the residue loop.  A \<open>defaultdict(int)\<close> over the three class
  names is a function into the counts.
\<close>

record ss_acc =
  ss_counts :: "ss_type \<Rightarrow> nat"
  ss_interface_counts :: "ss_type \<Rightarrow> nat"
  plddts_interface :: "real list"
  plddts_ss :: "real list"

definition ss_init :: ss_acc where
  "ss_init = \<lparr> ss_counts = (\<lambda>_. 0), ss_interface_counts = (\<lambda>_. 0),
               plddts_interface = [], plddts_ss = [] \<rparr>"

text \<open>\<open>sum(atom.bfactor for atom in residue) / len(residue)\<close>.\<close>

definition avg_bfactor :: "residue \<Rightarrow> pyexc + real" where
  "avg_bfactor r =
     (if atoms r = [] then Inl ZeroDivisionError
      else Inr (sum_list (map bfactor (atoms r)) / real (length (atoms r))))"

text \<open>
  One round of \<open>for residue in chain\<close>.  An exception inside the round is logged and the
  loop goes on; a count incremented before the exception stays incremented.
\<close>

definition ss_step ::
  "string \<Rightarrow> ((string \<times> int) \<rightharpoonup> char) \<Rightarrow> int list \<Rightarrow> ss_acc \<Rightarrow> residue \<Rightarrow> ss_acc" where
  "ss_step binder_chain dssp interacting_residues acc r =
     (case dssp (binder_chain, resseq r) of
        None \<Rightarrow> acc
      | Some ss \<Rightarrow>
          let ss_type = classify_ss ss;
              acc1 = acc\<lparr> ss_counts := (ss_counts acc)(ss_type := ss_counts acc ss_type + 1) \<rparr>
          in case (if ss_type \<noteq> Loop then
                     (case avg_bfactor r of
                        Inl e \<Rightarrow> Inl e
                      | Inr v \<Rightarrow> Inr (acc1\<lparr> plddts_ss := plddts_ss acc1 @ [v] \<rparr>))
                   else Inr acc1) of
               Inl e \<Rightarrow> acc1
             | Inr acc2 \<Rightarrow>
                 if resseq r \<in> set interacting_residues then
                   (let acc3 = acc2\<lparr> ss_interface_counts :=
                          (ss_interface_counts acc2)(ss_type := ss_interface_counts acc2 ss_type + 1) \<rparr>
                    in case avg_bfactor r of
                         Inl e \<Rightarrow> acc3
                       | Inr v \<Rightarrow> acc3\<lparr> plddts_interface := plddts_interface acc3 @ [v] \<rparr>)
                 else acc2)"

definition total_of :: "(ss_type \<Rightarrow> nat) \<Rightarrow> nat" where
  "total_of c = c Helix + c Sheet + c Loop"

type_synonym ss_result = "real \<times> real \<times> real \<times> real \<times> real \<times> real \<times> real \<times> real"

text \<open>Lines 85 to 104 of \<open>calc_ss_percentage\<close>: totals, the raise on zero, the eight values.\<close>

definition ss_percentages :: "ss_acc \<Rightarrow> pyexc + ss_result" where
  "ss_percentages acc =
     (let total_residues = total_of (ss_counts acc);
          total_interface_residues = total_of (ss_interface_counts acc)
      in if total_residues = 0 then Inl (ValueError ''No residues were processed successfully'')
         else
           let helix_pct = (if total_residues > 0
                            then py_round2 (real (ss_counts acc Helix) / real total_residues * 100) else 0);
               sheet_pct = (if total_residues > 0
                            then py_round2 (real (ss_counts acc Sheet) / real total_residues * 100) else 0);
               loop_pct = (if total_residues > 0
                           then py_round2 ((real total_residues - real (ss_counts acc Helix)
                                             - real (ss_counts acc Sheet)) / real total_residues * 100)
                           else 0);
               i_helix_pct = (if total_interface_residues > 0
                              then py_round2 (real (ss_interface_counts acc Helix) / real total_interface_residues * 100)
                              else 0);
               i_sheet_pct = (if total_interface_residues > 0
                              then py_round2 (real (ss_interface_counts acc Sheet) / real total_interface_residues * 100)
                              else 0);
               i_loop_pct = (if total_interface_residues > 0
                             then py_round2 ((real total_interface_residues - real (ss_interface_counts acc Helix)
                                               - real (ss_interface_counts acc Sheet)) / real total_interface_residues * 100)
                             else 0);
               i_plddt = (if plddts_interface acc \<noteq> []
                          then py_round2 (sum_list (plddts_interface acc) / real (length (plddts_interface acc)) / 100)
                          else 0);
               ss_plddt = (if plddts_ss acc \<noteq> []
                           then py_round2 (sum_list (plddts_ss acc) / real (length (plddts_ss acc)) / 100)
                           else 0)
           in Inr (helix_pct, sheet_pct, loop_pct, i_helix_pct, i_sheet_pct, i_loop_pct, i_plddt, ss_plddt))"

text \<open>
  What \<open>calc_ss_percentage\<close> asks of the outside: whether a path exists, the parsed
  structure of a file, and the DSSP run, whose result maps \<open>(chain, resseq)\<close> to the
  secondary-structure letter (\<open>dssp[key][2]\<close>).
\<close>

record ss_env =
  file_exists :: "string \<Rightarrow> bool"
  parse_pdb :: "string \<Rightarrow> pyexc + structure"
  run_dssp :: "string \<Rightarrow> string \<Rightarrow> pyexc + ((string \<times> int) \<rightharpoonup> char)"

fun join_with :: "string \<Rightarrow> string list \<Rightarrow> string" where
  "join_with sep [] = []"
| "join_with sep [x] = x"
| "join_with sep (x # y # r) = x @ sep @ join_with sep (y # r)"

text \<open>\<open>str\<close> of a list of strings, as the f-string prints \<open>available_chains\<close>.\<close>

definition str_of_strs :: "string list \<Rightarrow> string" where
  "str_of_strs xs = ''['' @ join_with '', '' (map (\<lambda>x. [CHR 0x27] @ x @ [CHR 0x27]) xs) @ '']''"

definition calc_ss_percentage ::
  "three_to_one \<Rightarrow> ss_env \<Rightarrow> string \<Rightarrow> string \<Rightarrow> string \<Rightarrow> string \<Rightarrow> real \<Rightarrow> pyexc + ss_result" where
  "calc_ss_percentage t31 env pdb_file dssp_path binder_chain target_chain atom_distance_cutoff =
     (if \<not> file_exists env pdb_file then Inl (FileNotFoundError (''PDB file not found: '' @ pdb_file))
      else if \<not> file_exists env dssp_path
      then Inl (FileNotFoundError (''DSSP executable not found: '' @ dssp_path))
      else
        case parse_pdb env pdb_file of Inl e \<Rightarrow> Inl e | Inr s \<Rightarrow>
        case first_model s of Inl e \<Rightarrow> Inl e | Inr m \<Rightarrow>
        case map_of m binder_chain of
          None \<Rightarrow> Inl (ValueError (''Chain '' @ binder_chain
                     @ '' not found in structure. Available chains: '' @ str_of_strs (map fst m)))
        | Some chain \<Rightarrow>
        case run_dssp env pdb_file dssp_path of Inl e \<Rightarrow> Inl e | Inr dssp \<Rightarrow>
        case hotspot_residues t31 (parse_pdb env pdb_file) binder_chain target_chain atom_distance_cutoff of
          Inl e \<Rightarrow> Inl e
        | Inr hs \<Rightarrow>
            ss_percentages (foldl (ss_step binder_chain dssp (dict_keys hs)) ss_init chain))"

section \<open>Relaxation stage (utils/relax.py, utils/pdb.py)\<close>

text \<open>
  The disk is a map from paths to the lines of a file; \<open>fastrelax_calls\<close> counts the
  invocations of \<open>fastrelax.apply\<close>.
\<close>

record relax_state =
  files :: "string \<rightharpoonup> string list"
  fastrelax_calls :: nat

text \<open>
  The relaxation engine works on poses of a type \<open>'p\<close> of its own.  Each of its calls gives
  a value or raises.  \<open>pose_from_pdb\<close> gets the content of the input file (\<open>None\<close>: no
  such file); \<open>copy_bfactors\<close> is the loop of lines 46 to 50, which runs through the pose
  interface only; \<open>dump_pdb\<close> gives the lines it writes, or \<open>None\<close> when it writes nothing.
\<close>

record 'p relax_collab =
  pose_from_pdb :: "string list option \<Rightarrow> pyexc + 'p"
  fastrelax_apply :: "'p \<Rightarrow> pyexc + 'p"
  align_apply :: "'p \<Rightarrow> 'p \<Rightarrow> pyexc + 'p"
  copy_bfactors :: "'p \<Rightarrow> 'p \<Rightarrow> pyexc + 'p"
  dump_pdb :: "'p \<Rightarrow> pyexc + string list option"

definition relevant_line :: "string \<Rightarrow> bool" where
  "relevant_line l \<longleftrightarrow>
     take 4 l = ''ATOM'' \<or> take 6 l = ''HETATM'' \<or> take 5 l = ''MODEL''
     \<or> take 3 l = ''TER'' \<or> take 3 l = ''END''"

definition clean_pdb :: "relax_state \<Rightarrow> string \<Rightarrow> pyexc + relax_state" where
  "clean_pdb st pdb_file =
     (case files st pdb_file of
        None \<Rightarrow> Inl (FileNotFoundError pdb_file)
      | Some ls \<Rightarrow> Inr (st\<lparr> files := (files st)(pdb_file \<mapsto> filter relevant_line ls) \<rparr>))"

text \<open>
  The part of \<open>pr_relax\<close> after the cache test and before the final existence test: the
  exception that left it, or \<open>()\<close>, with the state reached.
\<close>

definition relax_body ::
  "'p relax_collab \<Rightarrow> relax_state \<Rightarrow> string \<Rightarrow> string \<Rightarrow> (pyexc + unit) \<times> relax_state" where
  "relax_body c st pdb_file relaxed_pdb_path =
     (case pose_from_pdb c (files st pdb_file) of Inl e \<Rightarrow> (Inl e, st) | Inr pose \<Rightarrow>
      let start_pose = pose;
          st1 = st\<lparr> fastrelax_calls := fastrelax_calls st + 1 \<rparr>
      in case fastrelax_apply c pose of Inl e \<Rightarrow> (Inl e, st1) | Inr relaxed \<Rightarrow>
         case align_apply c start_pose relaxed of Inl e \<Rightarrow> (Inl e, st1) | Inr aligned \<Rightarrow>
         case copy_bfactors c start_pose aligned of Inl e \<Rightarrow> (Inl e, st1) | Inr final \<Rightarrow>
         case dump_pdb c final of Inl e \<Rightarrow> (Inl e, st1) | Inr written \<Rightarrow>
           let st2 = (case written of
                        None \<Rightarrow> st1
                      | Some ls \<Rightarrow> st1\<lparr> files := (files st1)(relaxed_pdb_path \<mapsto> ls) \<rparr>)
           in case clean_pdb st2 relaxed_pdb_path of
                Inl e \<Rightarrow> (Inl e, st2)
              | Inr st3 \<Rightarrow> (Inr (), st3))"

definition pr_relax ::
  "'p relax_collab \<Rightarrow> relax_state \<Rightarrow> string \<Rightarrow> string \<Rightarrow> bool \<times> relax_state" where
  "pr_relax c st pdb_file relaxed_pdb_path =
     (if files st relaxed_pdb_path \<noteq> None then (True, st)
      else
        case relax_body c st pdb_file relaxed_pdb_path of
          (Inl e, st') \<Rightarrow> (False, st')
        | (Inr _, st') \<Rightarrow>
            if files st' relaxed_pdb_path \<noteq> None then (True, st') else (False, st'))"

section \<open>Interface scorer (utils/scores.py)\<close>

text \<open>\<open>str\<close> of an integer, for the f-strings that print residue numbers and counts.\<close>

fun str_nat :: "nat \<Rightarrow> string" where
  "str_nat n = (if n < 10 then [''0123456789'' ! n]
                else str_nat (n div 10) @ [''0123456789'' ! (n mod 10)])"

declare str_nat.simps [simp del]

definition str_int :: "int \<Rightarrow> string" where
  "str_int i = (if i < 0 then ''-'' @ str_nat (nat (- i)) else str_nat (nat i))"

record interface_scores =
  binder_score :: real
  surface_hydrophobicity :: real
  interface_sc :: real
  interface_packstat :: real
  interface_dG :: real
  interface_dSASA :: real
  interface_dG_SASA_ratio :: real
  interface_fraction :: real
  interface_hydrophobicity :: real
  interface_nres :: int
  interface_interface_hbonds :: real
  interface_hbond_percentage :: "real option"
  interface_delta_unsat_hbonds :: real
  interface_delta_unsat_hbonds_percentage :: "real option"

record pose_residue =
  is_apolar :: bool
  res_name :: string

text \<open>
  The calls into the energetics library for one structure file, each with the value it
  gives or the exception it raises, in the order \<open>score_interface\<close> makes them.
  \<open>load_pose\<close> is \<open>pr.pose_from_pdb\<close> followed by \<open>pose.total_residue()\<close>; \<open>iam_apply\<close>
  covers setting up and applying the \<open>InterfaceAnalyzerMover\<close>; \<open>tem_calculate\<close> and
  \<open>bsasa_calculate\<close> cover setting up and running the two metrics; \<open>split_chains\<close> is the
  list of pairs the dictionary comprehension of line 138 is built from; \<open>layer_apply\<close>
  gives one flag per residue of the binder pose.
\<close>

record scoring_collab =
  load_pose :: "pyexc + nat"
  iam_apply :: "pyexc + unit"
  iam_get_all_data :: "pyexc + unit"
  get_sc_value :: "pyexc + real"
  get_interface_hbonds :: "pyexc + real"
  get_interface_dG :: "pyexc + real"
  get_interface_delta_sasa :: "pyexc + real"
  get_interface_packstat :: "pyexc + real"
  get_dG_dSASA_ratio :: "pyexc + real"
  buns_report_sm :: "pyexc + real"
  tem_calculate :: "pyexc + real"
  bsasa_calculate :: "pyexc + real"
  split_chains :: "pyexc + (string \<times> pose_residue list) list"
  layer_apply :: "pose_residue list \<Rightarrow> pyexc + bool list"

definition amino_acids :: string where
  "amino_acids = ''ACDEFGHIKLMNPQRSTVWY''"

definition interface_AA_init :: "(char \<times> int) list" where
  "interface_AA_init = map (\<lambda>aa. (aa, 0)) amino_acids"

text \<open>\<open>interface_AA[aa_type] += 1\<close>: \<open>KeyError\<close> when the letter is not a key.\<close>

fun aa_incr :: "char \<Rightarrow> (char \<times> int) list \<Rightarrow> pyexc + (char \<times> int) list" where
  "aa_incr aa [] = Inl (KeyError [aa])"
| "aa_incr aa ((k, n) # d) =
     (if aa = k then Inr ((k, n + 1) # d)
      else case aa_incr aa d of Inl e \<Rightarrow> Inl e | Inr d' \<Rightarrow> Inr ((k, n) # d'))"

text \<open>The loop over \<open>interface_residues_set.items()\<close>.\<close>

fun interface_loop ::
  "string \<Rightarrow> (int \<times> char) list \<Rightarrow> (char \<times> int) list \<times> string list \<Rightarrow>
   pyexc + ((char \<times> int) list \<times> string list)" where
  "interface_loop binder_chain [] acc = Inr acc"
| "interface_loop binder_chain ((pdb_res_num, aa_type) # rest) (interface_AA, ids) =
     (case aa_incr aa_type interface_AA of
        Inl e \<Rightarrow> Inl e
      | Inr interface_AA' \<Rightarrow>
          interface_loop binder_chain rest (interface_AA', ids @ [binder_chain @ str_int pdb_res_num]))"

text \<open>\<open>interface_AA[aa]\<close> for a letter of the alphabet; the key is always there.\<close>

definition aa_get :: "(char \<times> int) list \<Rightarrow> char \<Rightarrow> int" where
  "aa_get d aa = (case map_of d aa of Some n \<Rightarrow> n | None \<Rightarrow> 0)"

text \<open>A feature computed inside its own \<open>try\<close>: the value, or 0 after an exception.\<close>

definition or_zero :: "pyexc + real \<Rightarrow> real" where
  "or_zero r = (case r of Inl e \<Rightarrow> 0 | Inr v \<Rightarrow> v)"

type_synonym iface_results = "interface_scores option \<times> (char \<times> int) list option \<times> string option"

text \<open>
  Sequencing inside a \<open>try\<close>-free stretch of code: the first exception ends the stretch.
\<close>

definition and_then :: "pyexc + 'a \<Rightarrow> ('a \<Rightarrow> pyexc + 'b) \<Rightarrow> pyexc + 'b" where
  "and_then m f = (case m of Inl e \<Rightarrow> Inl e | Inr x \<Rightarrow> f x)"

text \<open>Lines 42 to 64: composition counts, the id list and its length.\<close>

definition interface_composition ::
  "three_to_one \<Rightarrow> pyexc + structure \<Rightarrow> string \<Rightarrow> string \<Rightarrow>
   pyexc + ((char \<times> int) list \<times> string list)" where
  "interface_composition t31 parsed binder_chain target_chain =
     and_then (hotspot_residues t31 parsed binder_chain target_chain 4)
       (\<lambda>interface_residues_set.
          interface_loop binder_chain interface_residues_set (interface_AA_init, []))"

definition interface_hydrophobicity_of :: "(char \<times> int) list \<Rightarrow> int \<Rightarrow> real" where
  "interface_hydrophobicity_of interface_AA nres =
     (let hydrophobic_count = sum_list (map (aa_get interface_AA) ''ACFILMPVWY'')
      in if nres \<noteq> 0 then real_of_int hydrophobic_count / real_of_int nres * 100 else 0)"

text \<open>
  Lines 150 to 176: the binder pose out of the chain dictionary (a later pair of the same
  letter replaces an earlier one), the surface flags, and the count over the flagged
  residues, each flag paired with the residue of the same index.
\<close>

definition surface_hydrophobicity_of :: "scoring_collab \<Rightarrow> string \<Rightarrow> pyexc + real" where
  "surface_hydrophobicity_of rc binder_chain =
     and_then (split_chains rc) (\<lambda>chain_poses.
       case map_of (rev chain_poses) binder_chain of
         None \<Rightarrow> Inl (KeyError binder_chain)
       | Some binder_pose \<Rightarrow>
           and_then (layer_apply rc binder_pose) (\<lambda>surface_res.
             let on_surface = filter fst (zip surface_res binder_pose);
                 total_count = length on_surface;
                 exp_apol_count = length (filter (\<lambda>p.
                     is_apolar (snd p) \<or> res_name (snd p) \<in> set [''PHE'', ''TRP'', ''TYR'']) on_surface)
             in Inr (if total_count > 0 then real exp_apol_count / real total_count else 0)))"

text \<open>
  Lines 67 to 131 and 179 to 195: the seven features that have a \<open>try\<close> of their own,
  the two percentages, the buried fraction, and the dictionary of scores.
\<close>

definition interface_record ::
  "scoring_collab \<Rightarrow> (char \<times> int) list \<Rightarrow> int \<Rightarrow> real \<Rightarrow> real \<Rightarrow> real \<Rightarrow> interface_scores" where
  "interface_record rc interface_AA nres b_score binder_sasa surface_hyd =
     (let hbonds = or_zero (get_interface_hbonds rc);
          dSASA = or_zero (get_interface_delta_sasa rc);
          delta_unsat_hbonds = or_zero (buns_report_sm rc)
      in \<lparr> binder_score = b_score,
           surface_hydrophobicity = surface_hyd,
           interface_sc = or_zero (get_sc_value rc),
           interface_packstat = or_zero (get_interface_packstat rc),
           interface_dG = or_zero (get_interface_dG rc),
           interface_dSASA = dSASA,
           interface_dG_SASA_ratio =
             (case get_dG_dSASA_ratio rc of Inl e \<Rightarrow> 0 | Inr v \<Rightarrow> v * 100),
           interface_fraction = (if binder_sasa > 0 then dSASA / binder_sasa * 100 else 0),
           interface_hydrophobicity = interface_hydrophobicity_of interface_AA nres,
           interface_nres = nres,
           interface_interface_hbonds = hbonds,
           interface_hbond_percentage =
             (if nres \<noteq> 0 then Some (hbonds / real_of_int nres * 100) else None),
           interface_delta_unsat_hbonds = delta_unsat_hbonds,
           interface_delta_unsat_hbonds_percentage =
             (if nres \<noteq> 0 then Some (delta_unsat_hbonds / real_of_int nres * 100) else None) \<rparr>)"

text \<open>
  \<open>score_interface\<close>.  Only the load of the pose returns \<open>(None, None, None)\<close>; every
  call outside \<open>interface_record\<close> raises through.
\<close>

definition score_interface ::
  "three_to_one \<Rightarrow> scoring_collab \<Rightarrow> pyexc + structure \<Rightarrow> string \<Rightarrow> string \<Rightarrow> pyexc + iface_results" where
  "score_interface t31 rc parsed binder_chain target_chain =
     (case load_pose rc of Inl e \<Rightarrow> Inr (None, None, None) | Inr n \<Rightarrow>
      and_then (iam_apply rc) (\<lambda>u1.
      and_then (interface_composition t31 parsed binder_chain target_chain) (\<lambda>counted.
      and_then (iam_get_all_data rc) (\<lambda>u2.
      and_then (tem_calculate rc) (\<lambda>b_score.
      and_then (bsasa_calculate rc) (\<lambda>binder_sasa.
      and_then (surface_hydrophobicity_of rc binder_chain) (\<lambda>surface_hyd.
        let interface_AA = fst counted;
            interface_residues_pdb_ids = snd counted;
            interface_nres = int (length interface_residues_pdb_ids)
        in Inr (Some (interface_record rc interface_AA interface_nres b_score binder_sasa surface_hyd),
                 Some interface_AA,
                 Some (join_with '','' interface_residues_pdb_ids)))))))))"

section \<open>Per-submission pipeline (processing/batch.py)\<close>

text \<open>
  A value of the input table as \<open>pd.read_csv\<close> gives it: a string, an integer, a float
  or the missing value.  A submission is a row of the table, a pandas \<open>Series\<close>: a map
  from column names to values.
\<close>

datatype csv_value = VStr string | VInt int | VFloat real | VNaN

type_synonym series = "string \<rightharpoonup> csv_value"

text \<open>\<open>os.path.join\<close> of two components.\<close>

definition path_join :: "string \<Rightarrow> string \<Rightarrow> string" where
  "path_join a b =
     (if b \<noteq> [] \<and> hd b = CHR ''/'' then b
      else if a = [] \<or> last a = CHR ''/'' then a @ b
      else a @ ''/'' @ b)"

text \<open>
  The four stages and \<open>os.makedirs\<close> as \<open>process_submission\<close> sees them: a call gives a
  value or raises.  A stage may give \<open>None\<close>; the tuple and the dictionary a stage gives
  otherwise are never empty, so \<open>not result\<close> holds for \<open>None\<close> only.  \<open>str_float\<close> is
  \<open>str\<close> of a float.
\<close>

record stage_env =
  str_float :: "real \<Rightarrow> string"
  makedirs :: "string \<Rightarrow> pyexc + unit"
  relax_stage :: "string \<Rightarrow> string \<Rightarrow> pyexc + bool"
  dssp_stage :: "string \<Rightarrow> string \<Rightarrow> string \<Rightarrow> string \<Rightarrow> pyexc + ss_result option"
  score_stage :: "string \<Rightarrow> string \<Rightarrow> string \<Rightarrow> pyexc + iface_results option"
  contact_stage :: "string \<Rightarrow> string \<Rightarrow> string \<Rightarrow> pyexc + contact_results option"

text \<open>\<open>str\<close> of a table value, as the f-strings print the submission id.\<close>

definition str_value :: "stage_env \<Rightarrow> csv_value \<Rightarrow> string" where
  "str_value env v =
     (case v of VStr t \<Rightarrow> t | VInt i \<Rightarrow> str_int i | VFloat x \<Rightarrow> str_float env x | VNaN \<Rightarrow> ''nan'')"

text \<open>
  \<open>pdb_files[submission_id]\<close>, with \<open>submission_id in pdb_files\<close> as the test for
  \<open>None\<close>: the keys are strings, and a number or the missing value equals no string.
\<close>

definition lookup_id :: "(string \<rightharpoonup> string) \<Rightarrow> csv_value \<Rightarrow> string option" where
  "lookup_id pdb_files v = (case v of VStr t \<Rightarrow> pdb_files t | _ \<Rightarrow> None)"

type_synonym submission_result =
  "csv_value \<times> csv_value \<times> ss_result option \<times> iface_results option \<times> contact_results option \<times> string option"

definition failure :: "csv_value \<Rightarrow> csv_value \<Rightarrow> string \<Rightarrow> submission_result" where
  "failure submission_id submission_sequence error_msg =
     (submission_id, submission_sequence, None, None, None, Some error_msg)"

text \<open>Lines 50 to 66: the relaxation \<open>try\<close>; \<open>Inr\<close> is the path used from there on.\<close>

definition relax_step :: "stage_env \<Rightarrow> string \<Rightarrow> csv_value \<Rightarrow> string \<Rightarrow> pyexc + string" where
  "relax_step env save_path submission_id pdb_path =
     (let relaxed_dir = path_join save_path ''relaxed'' in
      and_then (makedirs env relaxed_dir) (\<lambda>u.
        let relaxed_path = path_join relaxed_dir (str_value env submission_id @ ''.pdb'') in
        and_then (relax_stage env pdb_path relaxed_path) (\<lambda>success.
          if \<not> success then Inl (ValueError ''Structure relaxation failed'')
          else Inr relaxed_path)))"

definition dssp_step :: "stage_env \<Rightarrow> string \<Rightarrow> string \<Rightarrow> string \<Rightarrow> string \<Rightarrow> pyexc + ss_result" where
  "dssp_step env pdb_path dssp_path binder_chain target_chain =
     and_then (dssp_stage env pdb_path dssp_path binder_chain target_chain) (\<lambda>dssp_results.
       case dssp_results of
         None \<Rightarrow> Inl (ValueError ''DSSP calculation returned None'')
       | Some r \<Rightarrow> Inr r)"

definition score_step :: "stage_env \<Rightarrow> string \<Rightarrow> string \<Rightarrow> string \<Rightarrow> pyexc + iface_results" where
  "score_step env pdb_path binder_chain target_chain =
     and_then (score_stage env pdb_path binder_chain target_chain) (\<lambda>interface_results.
       case interface_results of
         None \<Rightarrow> Inl (ValueError ''Interface scoring returned None'')
       | Some r \<Rightarrow> Inr r)"

definition contact_step :: "stage_env \<Rightarrow> string \<Rightarrow> string \<Rightarrow> string \<Rightarrow> pyexc + contact_results" where
  "contact_step env pdb_path binder_chain target_chain =
     and_then (contact_stage env pdb_path binder_chain target_chain) (\<lambda>contact_results.
       case contact_results of
         None \<Rightarrow> Inl (ValueError ''Contact analysis returned None'')
       | Some r \<Rightarrow> Inr r)"

text \<open>Lines 47 to 101, once both columns have been read and the structure file is known.\<close>

definition run_stages ::
  "stage_env \<Rightarrow> csv_value \<Rightarrow> csv_value \<Rightarrow> string \<Rightarrow> string \<Rightarrow> string \<Rightarrow> string \<Rightarrow> string \<Rightarrow> submission_result" where
  "run_stages env submission_id submission_sequence pdb_path0 dssp_path save_path binder_chain target_chain =
     (case relax_step env save_path submission_id pdb_path0 of
        Inl e \<Rightarrow> failure submission_id submission_sequence
                   (''Structure relaxation failed for '' @ str_value env submission_id @ '': '' @ exc_str e)
      | Inr pdb_path \<Rightarrow>
     (case dssp_step env pdb_path dssp_path binder_chain target_chain of
        Inl e \<Rightarrow> failure submission_id submission_sequence
                   (''DSSP calculation failed for '' @ str_value env submission_id @ '': '' @ exc_str e)
      | Inr dssp_results \<Rightarrow>
     (case score_step env pdb_path binder_chain target_chain of
        Inl e \<Rightarrow> failure submission_id submission_sequence
                   (''Interface scoring failed for '' @ str_value env submission_id @ '': '' @ exc_str e)
      | Inr interface_results \<Rightarrow>
     (case contact_step env pdb_path binder_chain target_chain of
        Inl e \<Rightarrow> failure submission_id submission_sequence
                   (''Contact analysis failed for '' @ str_value env submission_id @ '': '' @ exc_str e)
      | Inr contact_results \<Rightarrow>
          (submission_id, submission_sequence, Some dssp_results, Some interface_results,
           Some contact_results, None)))))"

text \<open>
  \<open>process_submission\<close>.  A missing column raises \<open>KeyError\<close> inside the outer \<open>try\<close>; its
  handler builds the message from \<open>submission_id\<close> and returns \<open>submission_sequence\<close>,
  so with \<open>id\<close> missing line 104 raises \<open>UnboundLocalError\<close>, and with only \<open>sequence\<close>
  missing line 106 does.  That exception leaves the function.
\<close>

definition process_submission ::
  "stage_env \<Rightarrow> series \<Rightarrow> (string \<rightharpoonup> string) \<Rightarrow> string \<Rightarrow> string \<Rightarrow> string \<Rightarrow> string \<Rightarrow>
   pyexc + submission_result" where
  "process_submission env submission_data pdb_files dssp_path save_path binder_chain target_chain =
     (case submission_data ''id'' of
        None \<Rightarrow> Inl (UnboundLocalError ''submission_id'')
      | Some submission_id \<Rightarrow>
     (case submission_data ''sequence'' of
        None \<Rightarrow> Inl (UnboundLocalError ''submission_sequence'')
      | Some submission_sequence \<Rightarrow>
     (case lookup_id pdb_files submission_id of
        None \<Rightarrow> Inr (failure submission_id submission_sequence
                       (''No PDB file found for submission '' @ str_value env submission_id))
      | Some pdb_path \<Rightarrow>
          Inr (run_stages env submission_id submission_sequence pdb_path dssp_path save_path
                 binder_chain target_chain))))"

section \<open>Batch orchestrator (processing/parse.py, processing/batch.py)\<close>









datatype cell = Num real | IntV int | Text string | Null | DictV "(int \<times> char) list" | ListV "int list"

text \<open>
  A row of the output: the columns \<open>id\<close>, \<open>status\<close> and \<open>error\<close>, and in \<open>row_cells\<close>
  the other columns.  \<open>row_error\<close> is \<open>None\<close> where the dictionary has no \<open>error\<close> key or
  the frame holds a missing value there.
\<close>

record result_row =
  row_id :: cell
  row_status :: string
  row_error :: "string option"
  row_cells :: "(string \<times> cell) list"

















section \<open>Batch entry point (annotate_binding_properties.py)\<close>



record run_outcome =
  returned :: "pyexc + string"
  artifact :: "result_row list option"
  dispatched :: "series list"



section \<open>Sample inputs\<close>

text \<open>
  A table of the twenty standard residues for the concrete inputs, a complex whose binder
  holds one residue of a non-standard type (\<open>MSE\<close>) next to the target, a relaxation
  engine that succeeds, and a disk with one input file.
\<close>

definition t31_std :: three_to_one where
  "t31_std = map_of
     [(''ALA'', CHR ''A''), (''CYS'', CHR ''C''), (''ASP'', CHR ''D''), (''GLU'', CHR ''E''),
      (''PHE'', CHR ''F''), (''GLY'', CHR ''G''), (''HIS'', CHR ''H''), (''ILE'', CHR ''I''),
      (''LYS'', CHR ''K''), (''LEU'', CHR ''L''), (''MET'', CHR ''M''), (''ASN'', CHR ''N''),
      (''PRO'', CHR ''P''), (''GLN'', CHR ''Q''), (''ARG'', CHR ''R''), (''SER'', CHR ''S''),
      (''THR'', CHR ''T''), (''VAL'', CHR ''V''), (''TRP'', CHR ''W''), (''TYR'', CHR ''Y'')]"

definition mk_atom :: "real \<Rightarrow> real \<Rightarrow> real \<Rightarrow> real \<Rightarrow> atom" where
  "mk_atom x y z b = \<lparr> coord = (x, y, z), bfactor = b \<rparr>"

definition sample_binder :: chain where
  "sample_binder =
     [\<lparr> resname = ''ALA'', resseq = 1, atoms = [mk_atom 0 0 0 90] \<rparr>,
      \<lparr> resname = ''MSE'', resseq = 2, atoms = [mk_atom 1 0 0 80] \<rparr>,
      \<lparr> resname = ''TRP'', resseq = 3, atoms = [mk_atom 40 0 0 70] \<rparr>]"

definition sample_target :: chain where
  "sample_target =
     [\<lparr> resname = ''GLY'', resseq = 10, atoms = [mk_atom 0 0 3 60] \<rparr>,
      \<lparr> resname = ''SER'', resseq = 11, atoms = [mk_atom 90 0 0 50] \<rparr>]"

definition sample_complex :: "structure" where
  "sample_complex = [[(''A'', sample_binder), (''B'', sample_target)]]"

definition binder_only :: "structure" where
  "binder_only = [[(''A'', sample_binder)]]"

definition empty_target :: "structure" where
  "empty_target = [[(''A'', sample_binder), (''B'', [\<lparr> resname = ''GLY'', resseq = 10, atoms = [] \<rparr>])]]"

definition sample_relax :: "string list relax_collab" where
  "sample_relax = \<lparr> pose_from_pdb = (\<lambda>content. case content of
                         None \<Rightarrow> Inl (RuntimeError ''cannot open file'') | Some ls \<Rightarrow> Inr ls),
                     fastrelax_apply = (\<lambda>p. Inr p),
                     align_apply = (\<lambda>start p. Inr p),
                     copy_bfactors = (\<lambda>start p. Inr p),
                     dump_pdb = (\<lambda>p. Inr (Some p)) \<rparr>"

definition sample_disk :: relax_state where
  "sample_disk = \<lparr> files = [''in.pdb'' \<mapsto> [''REMARK predicted'', ''ATOM      1  N   ALA A   1'']],
                    fastrelax_calls = 0 \<rparr>"

definition remark_disk :: relax_state where
  "remark_disk = \<lparr> files = [''in.pdb'' \<mapsto> [''REMARK predicted'']], fastrelax_calls = 0 \<rparr>"

text \<open>
  A DSSP result for the binder of the sample complex (helix, other, strand), the
  accumulators of the residue loop on it with residue 1 at the interface, and the outcomes
  of the energetics library: all calls succeeding, the total-energy metric raising, and
  the shape complementarity raising.
\<close>

definition sample_dssp :: "(string \<times> int) \<rightharpoonup> char" where
  "sample_dssp = [(''A'', 1) \<mapsto> CHR ''H'', (''A'', 2) \<mapsto> CHR ''-'', (''A'', 3) \<mapsto> CHR ''E'']"

definition sample_acc :: ss_acc where
  "sample_acc = foldl (ss_step ''A'' sample_dssp [1]) ss_init sample_binder"

definition sample_scoring :: scoring_collab where
  "sample_scoring = \<lparr> load_pose = Inr 5,
      iam_apply = Inr (),
      iam_get_all_data = Inr (),
      get_sc_value = Inr (65 / 100),
      get_interface_hbonds = Inr 3,
      get_interface_dG = Inr (- 30),
      get_interface_delta_sasa = Inr 800,
      get_interface_packstat = Inr (6 / 10),
      get_dG_dSASA_ratio = Inr (- 4 / 100),
      buns_report_sm = Inr 1,
      tem_calculate = Inr (- 120),
      bsasa_calculate = Inr 4000,
      split_chains = Inr [(''A'', [\<lparr> is_apolar = True, res_name = ''ALA'' \<rparr>,
                                    \<lparr> is_apolar = False, res_name = ''TRP'' \<rparr>]),
                          (''B'', [\<lparr> is_apolar = False, res_name = ''GLY'' \<rparr>])],
      layer_apply = (\<lambda>p. Inr (map (\<lambda>r. True) p)) \<rparr>"

definition energy_fails :: scoring_collab where
  "energy_fails = sample_scoring\<lparr> tem_calculate := Inl (RuntimeError ''total energy metric failed'') \<rparr>"

definition sc_fails :: scoring_collab where
  "sc_fails = sample_scoring\<lparr> get_sc_value := Inl (RuntimeError ''no sc value'') \<rparr>"

text \<open>The composition counts of the sample complex: one alanine at the interface.\<close>

definition sample_counts :: "(char \<times> int) list" where
  "sample_counts = (CHR ''A'', 1) # map (\<lambda>aa. (aa, 0)) ''CDEFGHIKLMNPQRSTVWY''"

text \<open>
  Stages that all succeed, a table of three submissions, and an environment in which the
  table and one structure directory exist.  The directory holds the structure of \<open>s1\<close>
  only, and the pool finishes its tasks in reverse order.
\<close>

definition sample_stages :: stage_env where
  "sample_stages = \<lparr> str_float = (\<lambda>x. ''0.5''),
      makedirs = (\<lambda>p. Inr ()),
      relax_stage = (\<lambda>pdb_path relaxed_path. Inr True),
      dssp_stage = (\<lambda>pdb_path dssp_path b t.
         Inr (Some (3333 / 100, 3333 / 100, 3333 / 100, 100, 0, 0, 9 / 10, 4 / 5))),
      score_stage = (\<lambda>pdb_path b t.
         Inr (Some (Some (interface_record sample_scoring sample_counts 1 (- 120) 4000 1),
                    Some sample_counts, Some ''A1''))),
      contact_stage = (\<lambda>pdb_path b t.
         Inr (Some \<lparr> binder_residues = [(1, CHR ''A'')], target_residues = [(10, CHR ''G'')],
                      target_residue_list = [10], binder_residue_list = [1],
                      total_interface_residues = 2, atom_contacts = 2 \<rparr>)) \<rparr>"







section \<open>Properties of the relaxation stage\<close>

lemma pr_relax_cached: "files st p \<noteq> None \<Longrightarrow> pr_relax c st f p = (True, st)"
  by (simp add: pr_relax_def)

lemma pr_relax_success_exists: "pr_relax c st f p = (True, st') \<Longrightarrow> files st' p \<noteq> None"
  by (auto simp: pr_relax_def split: if_splits prod.splits sum.splits)

text \<open>
  Claim C8.  A call of the relaxation stage whose cache path already exists returns success
  at once: the disk and the count of relaxation runs are left as they were.  After a
  successful call the cache path exists, so a second call with the same two paths is
  such a call: same path, same file, no further run of the relaxation engine.
\<close>

theorem relax_idempotent:
  "(files st p \<noteq> None \<longrightarrow> pr_relax c st f p = (True, st)) \<and>
   (fst (pr_relax c st f p) \<longrightarrow>
      pr_relax c (snd (pr_relax c st f p)) f p = (True, snd (pr_relax c st f p)))"
proof (intro conjI impI)
  assume "files st p \<noteq> None"
  then show "pr_relax c st f p = (True, st)" by (rule pr_relax_cached)
next
  assume ok: "fst (pr_relax c st f p)"
  obtain st1 where r: "pr_relax c st f p = (True, st1)"
    using ok by (cases "pr_relax c st f p") auto
  from pr_relax_success_exists[OF r] have "files st1 p \<noteq> None" .
  then show "pr_relax c (snd (pr_relax c st f p)) f p = (True, snd (pr_relax c st f p))"
    using r by (simp add: pr_relax_cached)
qed

lemma sample_relax_run:
  "pr_relax sample_relax sample_disk ''in.pdb'' ''out.pdb'' =
     (True, \<lparr> files = [''in.pdb'' \<mapsto> [''REMARK predicted'', ''ATOM      1  N   ALA A   1''],
                       ''out.pdb'' \<mapsto> [''ATOM      1  N   ALA A   1'']],
              fastrelax_calls = 1 \<rparr>)"
  by (simp add: pr_relax_def relax_body_def clean_pdb_def sample_relax_def sample_disk_def relevant_line_def)

theorem relax_idempotent_witness:
  "fst (pr_relax sample_relax sample_disk ''in.pdb'' ''out.pdb'') \<and>
   fastrelax_calls (snd (pr_relax sample_relax sample_disk ''in.pdb'' ''out.pdb'')) = 1 \<and>
   fastrelax_calls (snd (pr_relax sample_relax
       (snd (pr_relax sample_relax sample_disk ''in.pdb'' ''out.pdb'')) ''in.pdb'' ''out.pdb'')) = 1"
  using relax_idempotent[of sample_disk "''out.pdb''" sample_relax "''in.pdb''"]
  by (simp add: sample_relax_run)

text \<open>
  Claim C6, as stated, fails on the code: the size of the output file is read for the log
  only.  With an input of remark lines only, the file written holds remark lines only,
  \<open>clean_pdb\<close> strips them all, and the stage reports success on an existing, empty file.
\<close>

theorem empty_output_counterexample:
  "fst (pr_relax sample_relax remark_disk ''in.pdb'' ''out.pdb'') \<and>
   files (snd (pr_relax sample_relax remark_disk ''in.pdb'' ''out.pdb'')) ''out.pdb'' = Some []"
  by (simp add: pr_relax_def relax_body_def clean_pdb_def sample_relax_def remark_disk_def relevant_line_def)

text \<open>
  Claim C6, amended.  When the cache path does not exist yet, the relaxation stage reports
  no success exactly when one of its steps raises (loading the input, the relaxation run,
  the alignment, the copy of the confidence values, the dump) or the dump writes no file,
  so that no output file exists afterwards.  No test on the size of the file is made.
\<close>

theorem relax_fails_iff:
  "files st p = None \<Longrightarrow>
   (\<not> fst (pr_relax c st f p)) \<longleftrightarrow>
   \<not> (\<exists>pose relaxed aligned final ls.
         pose_from_pdb c (files st f) = Inr pose \<and>
         fastrelax_apply c pose = Inr relaxed \<and>
         align_apply c pose relaxed = Inr aligned \<and>
         copy_bfactors c pose aligned = Inr final \<and>
         dump_pdb c final = Inr (Some ls))"
  by (auto simp: pr_relax_def relax_body_def clean_pdb_def Let_def split: sum.splits option.splits)

theorem relax_fails_iff_witness:
  "files sample_disk ''out.pdb'' = None \<and> fst (pr_relax sample_relax sample_disk ''in.pdb'' ''out.pdb'')"
  using relax_fails_iff[of sample_disk "''out.pdb''" sample_relax "''in.pdb''"]
  by (simp add: sample_relax_def sample_disk_def)

section \<open>Properties of the spatial interface detector\<close>

text \<open>
  Claim C7, as stated, fails for the contact analysis: it has no chain checks, it catches
  the exception an absent or empty chain leads to, and it returns \<open>None\<close>.
\<close>

theorem contacts_no_error_counterexample:
  "analyze_interface_contacts t31_std (Inr binder_only) ''A'' ''B'' 4 = Inr None \<and>
   analyze_interface_contacts t31_std (Inr empty_target) ''A'' ''B'' 4 = Inr None"
  by (simp add: analyze_interface_contacts_def contacts_body_def first_model_def binder_only_def
      empty_target_def unfold_atoms_def cKDTree_def sample_binder_def)

text \<open>
  Claim C7, amended.  In a structure with a first model, \<open>hotspot_residues\<close> raises a
  \<open>ValueError\<close> that names the chain when the binder chain or the target chain is absent,
  and a \<open>ValueError\<close> \<open>No atoms found in ... chain\<close> when a named chain has no atoms;
  \<open>analyze_interface_contacts\<close> returns \<open>None\<close> in each of these cases and raises nothing.
\<close>

theorem chain_checks:
  assumes "first_model s = Inr m"
  shows "(map_of m b = None \<longrightarrow>
            hotspot_residues t31 (Inr s) b t r =
              Inl (ValueError (''Binder chain '' @ [CHR 0x27] @ b @ [CHR 0x27] @ '' not found in structure'')))
       \<and> (map_of m b \<noteq> None \<and> map_of m t = None \<longrightarrow>
            hotspot_residues t31 (Inr s) b t r =
              Inl (ValueError (''Target chain '' @ [CHR 0x27] @ t @ [CHR 0x27] @ '' not found in structure'')))
       \<and> (\<forall>bch tch. map_of m b = Some bch \<and> map_of m t = Some tch \<and> unfold_atoms bch = [] \<longrightarrow>
            hotspot_residues t31 (Inr s) b t r = Inl (ValueError (''No atoms found in binder chain '' @ b)))
       \<and> (\<forall>bch tch. map_of m b = Some bch \<and> map_of m t = Some tch \<and> unfold_atoms bch \<noteq> []
              \<and> unfold_atoms tch = [] \<longrightarrow>
            hotspot_residues t31 (Inr s) b t r = Inl (ValueError (''No atoms found in target chain '' @ t)))
       \<and> (map_of m b = None \<or> map_of m t = None
            \<or> (\<exists>bch. map_of m b = Some bch \<and> unfold_atoms bch = [])
            \<or> (\<exists>tch. map_of m t = Some tch \<and> unfold_atoms tch = []) \<longrightarrow>
            analyze_interface_contacts t31 (Inr s) b t r = Inr None)"
  using assms
  by (auto simp: hotspot_residues_def analyze_interface_contacts_def contacts_body_def cKDTree_def Let_def
      split: option.splits sum.splits)

theorem chain_checks_witness:
  "first_model binder_only = Inr [(''A'', sample_binder)] \<and>
   hotspot_residues t31_std (Inr binder_only) ''A'' ''B'' 4 =
     Inl (ValueError (''Target chain '' @ [CHR 0x27] @ ''B'' @ [CHR 0x27] @ '' not found in structure'')) \<and>
   analyze_interface_contacts t31_std (Inr binder_only) ''A'' ''B'' 4 = Inr None"
  using chain_checks[where s = binder_only and m = "[(''A'', sample_binder)]" and b = "''A''"
      and t = "''B''" and ?t31.0 = t31_std and r = 4]
  by (simp add: first_model_def binder_only_def)

lemma dict_set_key_list:
  "map fst (dict_set k v d) = (if k \<in> fst ` set d then map fst d else map fst d @ [k])"
proof (induction d)
  case Nil
  then show ?case by simp
next
  case (Cons x d)
  obtain k' v' where x: "x = (k', v')" by (cases x)
  show ?case
  proof (cases "k = k'")
    case True
    then show ?thesis by (simp add: x)
  next
    case False
    then show ?thesis using Cons.IH by (simp add: x)
  qed
qed

lemma dict_keys_Nil [simp]: "dict_keys [] = []"
  by (simp add: dict_keys_def)

lemma dict_set_keys: "set (dict_keys (dict_set k v d)) = insert k (set (dict_keys d))"
  by (auto simp: dict_keys_def dict_set_key_list)

lemma contacts_loop_binder_keys:
  "set (dict_keys (fst (contacts_loop t31 ts xs (bd, td)))) =
     set (dict_keys bd) \<union>
     (\<lambda>x. resseq (fst (fst x))) ` {x \<in> set xs. snd x \<noteq> [] \<and> t31 (resname (fst (fst x))) \<noteq> None}"
proof (induction xs arbitrary: bd td)
  case Nil
  then show ?case by simp
next
  case (Cons x xs)
  obtain b ci where x: "x = (b, ci)" by (cases x)
  show ?case
  proof (cases "ci \<noteq> [] \<and> t31 (resname (fst b)) \<noteq> None")
    case True
    then obtain aa where aa: "t31 (resname (fst b)) = Some aa" by auto
    have step: "contacts_loop t31 ts (x # xs) (bd, td) =
            contacts_loop t31 ts xs (dict_set (resseq (fst b)) aa bd, target_loop t31 ts ci td)"
      using True aa by (simp add: x)
    have sel: "{y \<in> set (x # xs). snd y \<noteq> [] \<and> t31 (resname (fst (fst y))) \<noteq> None} =
            insert x {y \<in> set xs. snd y \<noteq> [] \<and> t31 (resname (fst (fst y))) \<noteq> None}"
      using True by (auto simp: x)
    show ?thesis
      unfolding step sel Cons.IH dict_set_keys by (auto simp: x)
  next
    case False
    then have step: "contacts_loop t31 ts (x # xs) (bd, td) = contacts_loop t31 ts xs (bd, td)"
      by (auto simp: x split: option.splits)
    have sel: "{y \<in> set (x # xs). snd y \<noteq> [] \<and> t31 (resname (fst (fst y))) \<noteq> None} =
            {y \<in> set xs. snd y \<noteq> [] \<and> t31 (resname (fst (fst y))) \<noteq> None}"
      using False by (auto simp: x)
    show ?thesis
      unfolding step sel Cons.IH by simp
  qed
qed

lemma zip_query_ball_tree:
  "zip bs (query_ball_tree bs ts r) =
     map (\<lambda>b. (b, filter (\<lambda>j. within_cutoff r (coord (snd b)) (coord (snd (ts ! j)))) [0..<length ts])) bs"
  by (induction bs) (simp_all add: query_ball_tree_def)

lemma filter_indices: "map (nth ts) (filter (\<lambda>j. P (ts ! j)) [0..<length ts]) = filter P ts"
proof -
  have "filter P (map (nth ts) [0..<length ts]) = map (nth ts) (filter (\<lambda>j. P (ts ! j)) [0..<length ts])"
    by (simp add: filter_map comp_def)
  then show ?thesis by (simp add: map_nth)
qed

lemma length_filter_indices: "length (filter (\<lambda>j. P (ts ! j)) [0..<length ts]) = length (filter P ts)"
  using arg_cong[OF filter_indices[of ts P], of length] by simp

lemma filter_indices_nonempty:
  "filter (\<lambda>j. P (ts ! j)) [0..<length ts] \<noteq> [] \<longleftrightarrow> (\<exists>q \<in> set ts. P q)"
proof -
  have "filter (\<lambda>j. P (ts ! j)) [0..<length ts] \<noteq> [] \<longleftrightarrow> filter P ts \<noteq> []"
    using length_filter_indices[of P ts] by (metis length_0_conv)
  then show ?thesis by (simp add: filter_empty_conv)
qed

lemma length_filter_product:
  "length (filter (\<lambda>pq. R (fst pq) (snd pq)) (List.product bs ts)) =
     sum_list (map (\<lambda>b. length (filter (R b) ts)) bs)"
  by (induction bs) (simp_all add: filter_map comp_def)

lemma contacts_count:
  "sum_list (map (\<lambda>ci. int (length ci)) (query_ball_tree bs ts r)) =
     int (length (filter (\<lambda>pq. within_cutoff r (coord (snd (fst pq))) (coord (snd (snd pq))))
                   (List.product bs ts)))"
proof -
  have "sum_list (map (\<lambda>ci. int (length ci)) (query_ball_tree bs ts r)) =
        int (sum_list (map (\<lambda>b. length (filter (\<lambda>q. within_cutoff r (coord (snd b)) (coord (snd q))) ts)) bs))"
    unfolding query_ball_tree_def
    by (induction bs) (simp_all add: length_filter_indices[where P = "\<lambda>q. within_cutoff r (coord (snd b)) (coord (snd q))" for b])
  then show ?thesis
    by (simp add: length_filter_product[where R = "\<lambda>b q. within_cutoff r (coord (snd b)) (coord (snd q))"])
qed

text \<open>
  Claim C9.  When the contact analysis returns a result, the keys of \<open>binder_residues\<close>
  (and the sorted \<open>binder_residue_list\<close>) are exactly the numbers of the binder residues
  that are of a standard type and have an atom within the cutoff of a target atom, so a
  residue of a non-standard type adds nothing to them; \<open>atom_contacts\<close> is the number of
  all pairs of a binder atom and a target atom within the cutoff, whatever the type of
  their residues.
\<close>

theorem nonstandard_binder_residues:
  assumes run: "analyze_interface_contacts t31 (Inr s) b t r = Inr (Some res)"
    and m: "first_model s = Inr m"
    and bch: "map_of m b = Some bch"
    and tch: "map_of m t = Some tch"
  shows "set (dict_keys (binder_residues res)) =
           {resseq rb | rb a. (rb, a) \<in> set (unfold_atoms bch) \<and> t31 (resname rb) \<noteq> None
              \<and> (\<exists>q \<in> set (unfold_atoms tch). within_cutoff r (coord a) (coord (snd q)))}
       \<and> set (binder_residue_list res) = set (dict_keys (binder_residues res))
       \<and> atom_contacts res =
           int (length (filter (\<lambda>pq. within_cutoff r (coord (snd (fst pq))) (coord (snd (snd pq))))
                          (List.product (unfold_atoms bch) (unfold_atoms tch))))"
proof -
  let ?bs = "unfold_atoms bch" and ?ts = "unfold_atoms tch"
  let ?xs = "zip ?bs (query_ball_tree ?bs ?ts r)"
  from run m bch tch
  have res: "res = \<lparr> binder_residues = fst (contacts_loop t31 ?ts ?xs ([], [])),
                     target_residues = snd (contacts_loop t31 ?ts ?xs ([], [])),
                     target_residue_list = sort (dict_keys (snd (contacts_loop t31 ?ts ?xs ([], [])))),
                     binder_residue_list = sort (dict_keys (fst (contacts_loop t31 ?ts ?xs ([], [])))),
                     total_interface_residues = int (length (fst (contacts_loop t31 ?ts ?xs ([], []))))
                        + int (length (snd (contacts_loop t31 ?ts ?xs ([], [])))),
                     atom_contacts = sum_list (map (\<lambda>ci. int (length ci)) (query_ball_tree ?bs ?ts r)) \<rparr>"
    by (auto simp: analyze_interface_contacts_def contacts_body_def Let_def
        split: sum.splits prod.splits)
  have keys: "set (dict_keys (binder_residues res)) =
           {resseq rb | rb a. (rb, a) \<in> set ?bs \<and> t31 (resname rb) \<noteq> None
              \<and> (\<exists>q \<in> set ?ts. within_cutoff r (coord a) (coord (snd q)))}"
  proof -
    have "set (dict_keys (binder_residues res)) =
        (\<lambda>x. resseq (fst (fst x))) ` {x \<in> set ?xs. snd x \<noteq> [] \<and> t31 (resname (fst (fst x))) \<noteq> None}"
      unfolding res by (simp add: contacts_loop_binder_keys)
    also have "\<dots> = {resseq rb | rb a. (rb, a) \<in> set ?bs \<and> t31 (resname rb) \<noteq> None
              \<and> (\<exists>q \<in> set ?ts. within_cutoff r (coord a) (coord (snd q)))}"
      (is "?L = ?R")
    proof (intro set_eqI iffI)
      fix k assume "k \<in> ?L"
      then obtain x where x: "x \<in> set ?xs" "snd x \<noteq> []" "t31 (resname (fst (fst x))) \<noteq> None"
        "k = resseq (fst (fst x))" by blast
      from x(1) obtain p where p: "p \<in> set ?bs"
        "x = (p, filter (\<lambda>j. within_cutoff r (coord (snd p)) (coord (snd (?ts ! j)))) [0..<length ?ts])"
        unfolding zip_query_ball_tree by (auto simp only: set_map image_iff)
      from x(2) p(2) have "\<exists>q \<in> set ?ts. within_cutoff r (coord (snd p)) (coord (snd q))"
        by (simp add: filter_indices_nonempty[where P = "\<lambda>q. within_cutoff r (coord (snd p)) (coord (snd q))"])
      moreover have "(fst p, snd p) \<in> set ?bs" using p(1) by simp
      moreover have "t31 (resname (fst p)) \<noteq> None" "k = resseq (fst p)" using x(3,4) p(2) by simp_all
      ultimately show "k \<in> ?R" by blast
    next
      fix k assume "k \<in> ?R"
      then obtain rb a where ra: "(rb, a) \<in> set ?bs" "t31 (resname rb) \<noteq> None"
        "\<exists>q \<in> set ?ts. within_cutoff r (coord a) (coord (snd q))" "k = resseq rb" by blast
      let ?x = "((rb, a), filter (\<lambda>j. within_cutoff r (coord a) (coord (snd (?ts ! j)))) [0..<length ?ts])"
      have "?x \<in> set ?xs"
        unfolding zip_query_ball_tree using ra(1) by (auto simp only: set_map image_iff snd_conv)
      moreover have "snd ?x \<noteq> []"
        using ra(3) by (simp add: filter_indices_nonempty[where P = "\<lambda>q. within_cutoff r (coord a) (coord (snd q))"])
      moreover have "t31 (resname (fst (fst ?x))) \<noteq> None" "k = resseq (fst (fst ?x))"
        using ra(2,4) by simp_all
      ultimately show "k \<in> ?L" by blast
    qed
    finally show ?thesis .
  qed
  have sorted: "set (binder_residue_list res) = set (dict_keys (binder_residues res))"
    unfolding res by simp
  have cnt: "atom_contacts res =
           int (length (filter (\<lambda>pq. within_cutoff r (coord (snd (fst pq))) (coord (snd (snd pq))))
                          (List.product ?bs ?ts)))"
    unfolding res by (simp add: contacts_count)
  show ?thesis using keys sorted cnt by simp
qed

lemma sample_contacts:
  "analyze_interface_contacts t31_std (Inr sample_complex) ''A'' ''B'' 4 =
     Inr (Some \<lparr> binder_residues = [(1, CHR ''A'')], target_residues = [(10, CHR ''G'')],
                  target_residue_list = [10], binder_residue_list = [1],
                  total_interface_residues = 2, atom_contacts = 2 \<rparr>)"
  by (simp add: analyze_interface_contacts_def contacts_body_def first_model_def sample_complex_def
      sample_binder_def sample_target_def unfold_atoms_def cKDTree_def query_ball_tree_def
      within_cutoff_def dist2_def mk_atom_def t31_std_def dict_keys_def Let_def upt_rec)

theorem nonstandard_binder_residues_witness:
  "analyze_interface_contacts t31_std (Inr sample_complex) ''A'' ''B'' 4 =
     Inr (Some \<lparr> binder_residues = [(1, CHR ''A'')], target_residues = [(10, CHR ''G'')],
                  target_residue_list = [10], binder_residue_list = [1],
                  total_interface_residues = 2, atom_contacts = 2 \<rparr>)
   \<and> t31_std ''MSE'' = None
   \<and> (2::int) = int (length (filter (\<lambda>pq. within_cutoff 4 (coord (snd (fst pq))) (coord (snd (snd pq))))
                          (List.product (unfold_atoms sample_binder) (unfold_atoms sample_target))))"
proof -
  have m: "first_model sample_complex = Inr [(''A'', sample_binder), (''B'', sample_target)]"
    by (simp add: first_model_def sample_complex_def)
  have b: "map_of [(''A'', sample_binder), (''B'', sample_target)] ''A'' = Some sample_binder"
    and t: "map_of [(''A'', sample_binder), (''B'', sample_target)] ''B'' = Some sample_target"
    by simp_all
  have c1: "t31_std ''MSE'' = None"
    by (simp add: t31_std_def)
  have c2: "(2::int) = int (length (filter (\<lambda>pq. within_cutoff 4 (coord (snd (fst pq))) (coord (snd (snd pq))))
                          (List.product (unfold_atoms sample_binder) (unfold_atoms sample_target))))"
    using nonstandard_binder_residues[OF sample_contacts m b t] by simp
  show ?thesis
    using sample_contacts c1 c2 by blast
qed


section \<open>Properties of the secondary-structure summary\<close>

lemma py_round2_close: "\<bar>py_round2 x - x\<bar> \<le> 1 / 200"
proof -
  define y where "y = x * 100"
  define f where "f = \<lfloor>y\<rfloor>"
  have b: "of_int f \<le> y" "y < of_int f + 1"
    unfolding f_def by linarith+
  have "\<bar>py_round2 x * 100 - y\<bar> \<le> 1 / 2"
    using b unfolding py_round2_def Let_def y_def[symmetric] f_def[symmetric]
    by (auto simp: abs_le_iff)
  then show ?thesis
    unfolding y_def by linarith
qed

lemma three_parts_sum:
  assumes "n \<noteq> (0::real)"
  shows "\<bar>py_round2 (a / n * 100) + py_round2 (b / n * 100) + py_round2 ((n - a - b) / n * 100) - 100\<bar> \<le> 1 / 10"
proof -
  have e: "a / n * 100 + b / n * 100 + (n - a - b) / n * 100 = 100"
    using assms by (simp add: field_simps)
  have "\<bar>py_round2 (a / n * 100) - a / n * 100\<bar> \<le> 1 / 200"
       "\<bar>py_round2 (b / n * 100) - b / n * 100\<bar> \<le> 1 / 200"
       "\<bar>py_round2 ((n - a - b) / n * 100) - (n - a - b) / n * 100\<bar> \<le> 1 / 200"
    by (rule py_round2_close)+
  with e show ?thesis by linarith
qed

text \<open>
  Claim C5.  When \<open>calc_ss_percentage\<close> returns its eight values, at least one residue was
  classified and \<open>helix_pct + sheet_pct + loop_pct\<close> is within 0.1 of 100 (a classified
  count of 0 raises \<open>ValueError\<close> instead, so no returned row has it and the three
  fractions are trivially 0 there); the interface fractions sum to within 0.1 of 100 when
  the interface count is positive and are all 0 when it is 0.  Floats are exact reals.
\<close>

theorem ss_fractions_sum:
  assumes "ss_percentages acc = Inr (hx, sh, lp, ihx, ish, ilp, ipl, spl)"
  shows "0 < total_of (ss_counts acc)
       \<and> \<bar>hx + sh + lp - 100\<bar> \<le> 1 / 10
       \<and> (total_of (ss_counts acc) = 0 \<longrightarrow> hx = 0 \<and> sh = 0 \<and> lp = 0)
       \<and> (0 < total_of (ss_interface_counts acc) \<longrightarrow> \<bar>ihx + ish + ilp - 100\<bar> \<le> 1 / 10)
       \<and> (total_of (ss_interface_counts acc) = 0 \<longrightarrow> ihx = 0 \<and> ish = 0 \<and> ilp = 0)"
proof -
  have pos: "0 < total_of (ss_counts acc)"
    using assms by (auto simp: ss_percentages_def Let_def split: if_splits)
  then have n0: "real (total_of (ss_counts acc)) \<noteq> 0" by simp
  have g: "hx = py_round2 (real (ss_counts acc Helix) / real (total_of (ss_counts acc)) * 100)"
          "sh = py_round2 (real (ss_counts acc Sheet) / real (total_of (ss_counts acc)) * 100)"
          "lp = py_round2 ((real (total_of (ss_counts acc)) - real (ss_counts acc Helix)
                  - real (ss_counts acc Sheet)) / real (total_of (ss_counts acc)) * 100)"
    using assms pos by (auto simp: ss_percentages_def Let_def split: if_splits)
  have glob: "\<bar>hx + sh + lp - 100\<bar> \<le> 1 / 10"
    unfolding g by (rule three_parts_sum[OF n0])
  have iface_pos: "\<bar>ihx + ish + ilp - 100\<bar> \<le> 1 / 10" if p: "0 < total_of (ss_interface_counts acc)"
  proof -
    from p have i0: "real (total_of (ss_interface_counts acc)) \<noteq> 0" by simp
    have gi: "ihx = py_round2 (real (ss_interface_counts acc Helix) / real (total_of (ss_interface_counts acc)) * 100)"
          "ish = py_round2 (real (ss_interface_counts acc Sheet) / real (total_of (ss_interface_counts acc)) * 100)"
          "ilp = py_round2 ((real (total_of (ss_interface_counts acc)) - real (ss_interface_counts acc Helix)
                  - real (ss_interface_counts acc Sheet)) / real (total_of (ss_interface_counts acc)) * 100)"
      using assms pos p by (auto simp: ss_percentages_def Let_def split: if_splits)
    show ?thesis unfolding gi by (rule three_parts_sum[OF i0])
  qed
  have iface_zero: "ihx = 0 \<and> ish = 0 \<and> ilp = 0" if z: "total_of (ss_interface_counts acc) = 0"
    using assms pos z by (auto simp: ss_percentages_def Let_def split: if_splits)
  show ?thesis using pos glob iface_pos iface_zero by simp
qed

lemma calc_ss_percentage_result:
  "calc_ss_percentage t31 env pdb_file dssp_path b t r = Inr res \<Longrightarrow> \<exists>acc. ss_percentages acc = Inr res"
  by (auto simp: calc_ss_percentage_def split: if_splits sum.splits option.splits)

lemma sample_acc_result:
  "ss_percentages sample_acc = Inr (3333 / 100, 3333 / 100, 3333 / 100, 100, 0, 0, 9 / 10, 4 / 5)"
  apply (simp add: ss_percentages_def sample_acc_def total_of_def Let_def ss_step_def ss_init_def
      sample_binder_def sample_dssp_def classify_ss_def avg_bfactor_def mk_atom_def)
  apply (simp add: py_round2_def Let_def)
  done

theorem ss_fractions_sum_witness:
  "ss_percentages sample_acc = Inr (3333 / 100, 3333 / 100, 3333 / 100, 100, 0, 0, 9 / 10, 4 / 5)
   \<and> 0 < total_of (ss_counts sample_acc)
   \<and> \<bar>3333 / 100 + 3333 / 100 + 3333 / 100 - (100::real)\<bar> \<le> 1 / 10"
  using ss_fractions_sum[OF sample_acc_result] sample_acc_result by simp

section \<open>Properties of the interface scorer\<close>

lemma aa_incr_ok:
  "aa_incr aa d = Inr d' \<Longrightarrow>
     map fst d' = map fst d \<and> sum_list (map snd d') = sum_list (map snd d) + 1
     \<and> ((\<forall>kv \<in> set d. 0 \<le> snd kv) \<longrightarrow> (\<forall>kv \<in> set d'. 0 \<le> snd kv))"
proof (induction d arbitrary: d')
  case Nil
  then show ?case by simp
next
  case (Cons x d)
  obtain k n where x: "x = (k, n)" by (cases x)
  show ?case
  proof (cases "aa = k")
    case True
    then show ?thesis using Cons.prems by (auto simp: x)
  next
    case False
    then obtain d0 where d0: "aa_incr aa d = Inr d0" "d' = (k, n) # d0"
      using Cons.prems by (auto simp: x split: sum.splits)
    from Cons.IH[OF d0(1)] show ?thesis by (simp add: d0(2) x)
  qed
qed

lemma interface_loop_ok:
  "interface_loop b xs (aa0, ids0) = Inr (aa, ids) \<Longrightarrow>
     map fst aa = map fst aa0 \<and> sum_list (map snd aa) = sum_list (map snd aa0) + int (length xs)
     \<and> length ids = length ids0 + length xs
     \<and> ((\<forall>kv \<in> set aa0. 0 \<le> snd kv) \<longrightarrow> (\<forall>kv \<in> set aa. 0 \<le> snd kv))"
proof (induction xs arbitrary: aa0 ids0)
  case Nil
  then show ?case by simp
next
  case (Cons x xs)
  obtain num ty where x: "x = (num, ty)" by (cases x)
  from Cons.prems obtain aa1 where
    a1: "aa_incr ty aa0 = Inr aa1" and
    rest: "interface_loop b xs (aa1, ids0 @ [b @ str_int num]) = Inr (aa, ids)"
    by (auto simp: x split: sum.splits)
  from aa_incr_ok[OF a1] Cons.IH[OF rest] show ?case by auto
qed

lemma aa_incr_get:
  "aa_incr aa d = Inr d' \<Longrightarrow> aa_get d' c = aa_get d c + (if c = aa then 1 else 0)"
proof (induction d arbitrary: d')
  case Nil
  then show ?case by simp
next
  case (Cons x d)
  obtain k n where x: "x = (k, n)" by (cases x)
  show ?case
  proof (cases "aa = k")
    case True
    then show ?thesis using Cons.prems by (auto simp: x aa_get_def)
  next
    case False
    then obtain d0 where d0: "aa_incr aa d = Inr d0" "d' = (k, n) # d0"
      using Cons.prems by (auto simp: x split: sum.splits)
    from Cons.IH[OF d0(1)] False show ?thesis by (auto simp: d0(2) x aa_get_def)
  qed
qed

lemma interface_loop_exact:
  "interface_loop b hs (aa0, ids0) = Inr (aa, ids) \<Longrightarrow>
     ids = ids0 @ map (\<lambda>kv. b @ str_int (fst kv)) hs
     \<and> (\<forall>c. aa_get aa c = aa_get aa0 c + int (length (filter (\<lambda>kv. snd kv = c) hs)))"
proof (induction hs arbitrary: aa0 ids0)
  case Nil
  then show ?case by simp
next
  case (Cons x hs)
  obtain num ty where x: "x = (num, ty)" by (cases x)
  from Cons.prems obtain aa1 where
    a1: "aa_incr ty aa0 = Inr aa1" and
    rest: "interface_loop b hs (aa1, ids0 @ [b @ str_int num]) = Inr (aa, ids)"
    by (auto simp: x split: sum.splits)
  from aa_incr_get[OF a1] Cons.IH[OF rest] show ?case by (auto simp: x)
qed

lemma aa_get_init: "aa_get interface_AA_init c = 0"
  by (simp add: aa_get_def interface_AA_init_def amino_acids_def)

lemma interface_composition_exact:
  assumes "interface_composition t31 parsed b t = Inr counted"
  shows "\<exists>hs. hotspot_residues t31 parsed b t 4 = Inr hs
       \<and> snd counted = map (\<lambda>kv. b @ str_int (fst kv)) hs
       \<and> map fst (fst counted) = amino_acids
       \<and> (\<forall>kv \<in> set (fst counted). 0 \<le> snd kv)
       \<and> (\<forall>c. aa_get (fst counted) c = int (length (filter (\<lambda>kv. snd kv = c) hs)))
       \<and> sum_list (map snd (fst counted)) = int (length hs)"
proof -
  from assms obtain hs where h: "hotspot_residues t31 parsed b t 4 = Inr hs"
    and l: "interface_loop b hs (interface_AA_init, []) = Inr (fst counted, snd counted)"
    by (auto simp: interface_composition_def and_then_def split: sum.splits)
  have init: "map fst interface_AA_init = amino_acids" "sum_list (map snd interface_AA_init) = 0"
    "\<forall>kv \<in> set interface_AA_init. 0 \<le> snd kv"
    by (simp_all add: interface_AA_init_def amino_acids_def)
  from interface_loop_ok[OF l] interface_loop_exact[OF l] init h show ?thesis
    by (intro exI[of _ hs]) (simp add: aa_get_init)
qed

text \<open>
  Claim C10.  Whenever the structure loads and the interface scorer returns, it returns a
  record of scores, and with \<open>hs\<close> the interface residues the detector found: the id list
  the returned string joins has one entry per residue of \<open>hs\<close>, the composition mapping
  has exactly the twenty keys \<open>ACDEFGHIKLMNPQRSTVWY\<close>, in this order, the count of each
  letter is the number of residues of \<open>hs\<close> with that letter, so every count is at least 0
  and the counts sum to \<open>interface_nres\<close>, \<open>interface_nres\<close> is the length of the id
  list, and each of the two percentages is \<open>None\<close> exactly when \<open>interface_nres\<close> is 0.
\<close>

theorem composition_invariant:
  assumes "score_interface t31 rc parsed b t = Inr (scores, aa_opt, ids_opt)"
    and "load_pose rc = Inr n"
  shows "\<exists>m hs aa. scores = Some m \<and> aa_opt = Some aa
       \<and> hotspot_residues t31 parsed b t 4 = Inr hs
       \<and> interface_composition t31 parsed b t = Inr (aa, map (\<lambda>kv. b @ str_int (fst kv)) hs)
       \<and> ids_opt = Some (join_with '','' (map (\<lambda>kv. b @ str_int (fst kv)) hs))
       \<and> map fst aa = ''ACDEFGHIKLMNPQRSTVWY''
       \<and> (\<forall>kv \<in> set aa. 0 \<le> snd kv)
       \<and> (\<forall>c. aa_get aa c = int (length (filter (\<lambda>kv. snd kv = c) hs)))
       \<and> sum_list (map snd aa) = interface_nres m
       \<and> interface_nres m = int (length (map (\<lambda>kv. b @ str_int (fst kv)) hs))
       \<and> (interface_hbond_percentage m = None \<longleftrightarrow> interface_nres m = 0)
       \<and> (interface_delta_unsat_hbonds_percentage m = None \<longleftrightarrow> interface_nres m = 0)"
proof -
  from assms obtain counted bs sasa sh where
    c: "interface_composition t31 parsed b t = Inr counted"
    and r: "scores = Some (interface_record rc (fst counted) (int (length (snd counted))) bs sasa sh)"
    and o: "aa_opt = Some (fst counted)" "ids_opt = Some (join_with '','' (snd counted))"
    by (auto simp: score_interface_def and_then_def Let_def split: sum.splits)
  let ?m = "interface_record rc (fst counted) (int (length (snd counted))) bs sasa sh"
  have f: "interface_nres ?m = int (length (snd counted))"
    "interface_hbond_percentage ?m = None \<longleftrightarrow> length (snd counted) = 0"
    "interface_delta_unsat_hbonds_percentage ?m = None \<longleftrightarrow> length (snd counted) = 0"
    by (simp_all add: interface_record_def Let_def)
  from interface_composition_exact[OF c] obtain hs where
    k: "hotspot_residues t31 parsed b t 4 = Inr hs"
      "snd counted = map (\<lambda>kv. b @ str_int (fst kv)) hs"
      "map fst (fst counted) = amino_acids"
      "\<forall>kv \<in> set (fst counted). 0 \<le> snd kv"
      "\<forall>c. aa_get (fst counted) c = int (length (filter (\<lambda>kv. snd kv = c) hs))"
      "sum_list (map snd (fst counted)) = int (length hs)"
    by blast
  have c': "interface_composition t31 parsed b t = Inr (fst counted, map (\<lambda>kv. b @ str_int (fst kv)) hs)"
    using c k(2) by (metis prod.collapse)
  show ?thesis
  proof (intro exI[of _ ?m] exI[of _ hs] exI[of _ "fst counted"] conjI)
    show "scores = Some ?m" by (rule r)
    show "aa_opt = Some (fst counted)" by (rule o(1))
    show "hotspot_residues t31 parsed b t 4 = Inr hs" by (rule k(1))
    show "interface_composition t31 parsed b t = Inr (fst counted, map (\<lambda>kv. b @ str_int (fst kv)) hs)"
      by (rule c')
    show "ids_opt = Some (join_with '','' (map (\<lambda>kv. b @ str_int (fst kv)) hs))"
      using o(2) k(2) by simp
    show "map fst (fst counted) = ''ACDEFGHIKLMNPQRSTVWY''" using k(3) by (simp add: amino_acids_def)
    show "\<forall>kv \<in> set (fst counted). 0 \<le> snd kv" by (rule k(4))
    show "\<forall>c. aa_get (fst counted) c = int (length (filter (\<lambda>kv. snd kv = c) hs))" by (rule k(5))
    show "sum_list (map snd (fst counted)) = interface_nres ?m" using k(2,6) f(1) by simp
    show "interface_nres ?m = int (length (map (\<lambda>kv. b @ str_int (fst kv)) hs))" using f(1) k(2) by simp
    show "interface_hbond_percentage ?m = None \<longleftrightarrow> interface_nres ?m = 0" using f(1,2) by simp
    show "interface_delta_unsat_hbonds_percentage ?m = None \<longleftrightarrow> interface_nres ?m = 0" using f(1,3) by simp
  qed
qed

lemma sample_hotspot:
  "hotspot_residues t31_std (Inr sample_complex) ''A'' ''B'' 4 = Inr [(1, CHR ''A'')]"
  by (simp add: hotspot_residues_def first_model_def sample_complex_def
      sample_binder_def sample_target_def unfold_atoms_def query_ball_tree_def
      within_cutoff_def dist2_def mk_atom_def t31_std_def Let_def upt_rec)

lemma sample_composition:
  "interface_composition t31_std (Inr sample_complex) ''A'' ''B'' = Inr (sample_counts, [''A1''])"
  by (simp add: interface_composition_def and_then_def sample_hotspot interface_AA_init_def
      amino_acids_def sample_counts_def str_int_def str_nat.simps)

lemma sample_scoring_calls:
  "load_pose sample_scoring = Inr 5" "iam_apply sample_scoring = Inr ()"
  "iam_get_all_data sample_scoring = Inr ()" "tem_calculate sample_scoring = Inr (- 120)"
  "bsasa_calculate sample_scoring = Inr 4000" "surface_hydrophobicity_of sample_scoring ''A'' = Inr 1"
  by (simp_all add: sample_scoring_def surface_hydrophobicity_of_def and_then_def Let_def)

lemma energy_fails_calls:
  "load_pose energy_fails = Inr 5" "iam_apply energy_fails = Inr ()"
  "iam_get_all_data energy_fails = Inr ()"
  "tem_calculate energy_fails = Inl (RuntimeError ''total energy metric failed'')"
  by (simp_all add: energy_fails_def sample_scoring_def)

lemma sc_fails_calls:
  "load_pose sc_fails = Inr 5" "iam_apply sc_fails = Inr ()"
  "iam_get_all_data sc_fails = Inr ()" "tem_calculate sc_fails = Inr (- 120)"
  "bsasa_calculate sc_fails = Inr 4000" "surface_hydrophobicity_of sc_fails ''A'' = Inr 1"
  "get_sc_value sc_fails = Inl (RuntimeError ''no sc value'')"
  "get_interface_dG sc_fails = Inr (- 30)"
  by (simp_all add: sc_fails_def sample_scoring_def surface_hydrophobicity_of_def and_then_def Let_def)

lemma sample_score:
  "score_interface t31_std sample_scoring (Inr sample_complex) ''A'' ''B'' =
     Inr (Some (interface_record sample_scoring sample_counts 1 (- 120) 4000 1),
          Some sample_counts, Some ''A1'')"
  by (simp add: score_interface_def and_then_def sample_composition sample_scoring_calls)

theorem composition_invariant_witness:
  "score_interface t31_std sample_scoring (Inr sample_complex) ''A'' ''B'' =
     Inr (Some (interface_record sample_scoring sample_counts 1 (- 120) 4000 1),
          Some sample_counts, Some ''A1'')
   \<and> load_pose sample_scoring = Inr 5
   \<and> sum_list (map snd sample_counts) = 1
   \<and> interface_nres (interface_record sample_scoring sample_counts 1 (- 120) 4000 1) = 1
   \<and> interface_hbond_percentage (interface_record sample_scoring sample_counts 1 (- 120) 4000 1) \<noteq> None"
proof -
  have n: "interface_nres (interface_record sample_scoring sample_counts 1 (- 120) 4000 1) = 1"
    by (simp add: interface_record_def Let_def)
  from composition_invariant[OF sample_score sample_scoring_calls(1)] n
  have "sum_list (map snd sample_counts) = 1"
    "interface_hbond_percentage (interface_record sample_scoring sample_counts 1 (- 120) 4000 1) \<noteq> None"
    by auto
  with sample_score sample_scoring_calls(1) n show ?thesis by simp
qed

text \<open>
  Claim C4, as stated, fails on the code: the total-energy metric of the binder has no
  \<open>try\<close> of its own.  With every other call succeeding, its exception leaves
  \<open>score_interface\<close>; no feature defaults to 0 and no record is returned.
\<close>

theorem energy_failure_counterexample:
  "score_interface t31_std energy_fails (Inr sample_complex) ''A'' ''B'' =
     Inl (RuntimeError ''total energy metric failed'')"
  by (simp add: score_interface_def and_then_def sample_composition energy_fails_calls)

lemma hotspot_failure_composition:
  "hotspot_residues t31 parsed b t 4 = Inl e \<Longrightarrow> interface_composition t31 parsed b t = Inl e"
  by (simp add: interface_composition_def and_then_def)

lemma surface_failures:
  "split_chains rc = Inl e \<Longrightarrow> surface_hydrophobicity_of rc b = Inl e"
  "split_chains rc = Inr cps \<Longrightarrow> map_of (rev cps) b = None \<Longrightarrow>
     surface_hydrophobicity_of rc b = Inl (KeyError b)"
  "split_chains rc = Inr cps \<Longrightarrow> map_of (rev cps) b = Some bp \<Longrightarrow> layer_apply rc bp = Inl e \<Longrightarrow>
     surface_hydrophobicity_of rc b = Inl e"
  by (simp_all add: surface_hydrophobicity_of_def and_then_def)

lemma score_interface_record:
  assumes "load_pose rc = Inr n" "iam_apply rc = Inr u1"
    "interface_composition t31 parsed b t = Inr counted"
    "iam_get_all_data rc = Inr u2" "tem_calculate rc = Inr bs" "bsasa_calculate rc = Inr sasa"
    "surface_hydrophobicity_of rc b = Inr sh"
  shows "score_interface t31 rc parsed b t =
     Inr (Some \<lparr> binder_score = bs,
                  surface_hydrophobicity = sh,
                  interface_sc = (case get_sc_value rc of Inl err \<Rightarrow> 0 | Inr v \<Rightarrow> v),
                  interface_packstat = (case get_interface_packstat rc of Inl err \<Rightarrow> 0 | Inr v \<Rightarrow> v),
                  interface_dG = (case get_interface_dG rc of Inl err \<Rightarrow> 0 | Inr v \<Rightarrow> v),
                  interface_dSASA = (case get_interface_delta_sasa rc of Inl err \<Rightarrow> 0 | Inr v \<Rightarrow> v),
                  interface_dG_SASA_ratio = (case get_dG_dSASA_ratio rc of Inl err \<Rightarrow> 0 | Inr v \<Rightarrow> v * 100),
                  interface_fraction =
                    (if sasa > 0
                     then (case get_interface_delta_sasa rc of Inl err \<Rightarrow> 0 | Inr v \<Rightarrow> v) / sasa * 100
                     else 0),
                  interface_hydrophobicity =
                    interface_hydrophobicity_of (fst counted) (int (length (snd counted))),
                  interface_nres = int (length (snd counted)),
                  interface_interface_hbonds = (case get_interface_hbonds rc of Inl err \<Rightarrow> 0 | Inr v \<Rightarrow> v),
                  interface_hbond_percentage =
                    (if snd counted \<noteq> []
                     then Some ((case get_interface_hbonds rc of Inl err \<Rightarrow> 0 | Inr v \<Rightarrow> v)
                                / real (length (snd counted)) * 100)
                     else None),
                  interface_delta_unsat_hbonds = (case buns_report_sm rc of Inl err \<Rightarrow> 0 | Inr v \<Rightarrow> v),
                  interface_delta_unsat_hbonds_percentage =
                    (if snd counted \<noteq> []
                     then Some ((case buns_report_sm rc of Inl err \<Rightarrow> 0 | Inr v \<Rightarrow> v)
                                / real (length (snd counted)) * 100)
                     else None) \<rparr>,
          Some (fst counted), Some (join_with '','' (snd counted)))"
proof -
  have "score_interface t31 rc parsed b t =
      Inr (Some (interface_record rc (fst counted) (int (length (snd counted))) bs sasa sh),
           Some (fst counted), Some (join_with '','' (snd counted)))"
    using assms by (simp add: score_interface_def and_then_def Let_def)
  then show ?thesis
    by (simp add: interface_record_def or_zero_def Let_def)
qed

text \<open>
  Claim C4, amended.  A failure of the structure load returns the all-null record.  Seven
  features are isolated: shape complementarity, the interface hydrogen-bond count, the
  interface energy, the buried surface area, the packing statistic, the energy-to-area
  ratio and the buried unsatisfied hydrogen bonds; when the computation of one of them
  raises, it is 0 and every other feature of the record is computed as it would be
  otherwise.  A failure of any other call is not isolated and raises out of the scorer:
  the run of the interface analyzer, the interface detection and the composition loop,
  the retrieval of the analyzer data, the total-energy and surface-area metrics of the
  binder, the split into chains (also when the binder chain is not among them) and the
  selection of the surface layer.  When all of these succeed the record is returned, each
  of its fourteen fields as stated.
\<close>

theorem isolated_features:
  "(load_pose rc = Inl e \<longrightarrow> score_interface t31 rc parsed b t = Inr (None, None, None))
   \<and> (load_pose rc = Inr n \<and> iam_apply rc = Inl e \<longrightarrow> score_interface t31 rc parsed b t = Inl e)
   \<and> (load_pose rc = Inr n \<and> iam_apply rc = Inr u1
        \<and> (hotspot_residues t31 parsed b t 4 = Inl e \<or> interface_composition t31 parsed b t = Inl e)
      \<longrightarrow> score_interface t31 rc parsed b t = Inl e)
   \<and> (load_pose rc = Inr n \<and> iam_apply rc = Inr u1
        \<and> interface_composition t31 parsed b t = Inr counted \<and> iam_get_all_data rc = Inl e
      \<longrightarrow> score_interface t31 rc parsed b t = Inl e)
   \<and> (load_pose rc = Inr n \<and> iam_apply rc = Inr u1
        \<and> interface_composition t31 parsed b t = Inr counted \<and> iam_get_all_data rc = Inr u2
        \<and> tem_calculate rc = Inl e
      \<longrightarrow> score_interface t31 rc parsed b t = Inl e)
   \<and> (load_pose rc = Inr n \<and> iam_apply rc = Inr u1
        \<and> interface_composition t31 parsed b t = Inr counted \<and> iam_get_all_data rc = Inr u2
        \<and> tem_calculate rc = Inr bs \<and> bsasa_calculate rc = Inl e
      \<longrightarrow> score_interface t31 rc parsed b t = Inl e)
   \<and> (load_pose rc = Inr n \<and> iam_apply rc = Inr u1
        \<and> interface_composition t31 parsed b t = Inr counted \<and> iam_get_all_data rc = Inr u2
        \<and> tem_calculate rc = Inr bs \<and> bsasa_calculate rc = Inr sasa
        \<and> (split_chains rc = Inl e
            \<or> (\<exists>cps bp. split_chains rc = Inr cps \<and> map_of (rev cps) b = Some bp
                  \<and> layer_apply rc bp = Inl e))
      \<longrightarrow> score_interface t31 rc parsed b t = Inl e)
   \<and> (load_pose rc = Inr n \<and> iam_apply rc = Inr u1
        \<and> interface_composition t31 parsed b t = Inr counted \<and> iam_get_all_data rc = Inr u2
        \<and> tem_calculate rc = Inr bs \<and> bsasa_calculate rc = Inr sasa
        \<and> (\<exists>cps. split_chains rc = Inr cps \<and> map_of (rev cps) b = None)
      \<longrightarrow> score_interface t31 rc parsed b t = Inl (KeyError b))
   \<and> (load_pose rc = Inr n \<and> iam_apply rc = Inr u1
        \<and> interface_composition t31 parsed b t = Inr counted \<and> iam_get_all_data rc = Inr u2
        \<and> tem_calculate rc = Inr bs \<and> bsasa_calculate rc = Inr sasa
        \<and> surface_hydrophobicity_of rc b = Inr sh
      \<longrightarrow> score_interface t31 rc parsed b t =
     Inr (Some \<lparr> binder_score = bs,
                  surface_hydrophobicity = sh,
                  interface_sc = (case get_sc_value rc of Inl err \<Rightarrow> 0 | Inr v \<Rightarrow> v),
                  interface_packstat = (case get_interface_packstat rc of Inl err \<Rightarrow> 0 | Inr v \<Rightarrow> v),
                  interface_dG = (case get_interface_dG rc of Inl err \<Rightarrow> 0 | Inr v \<Rightarrow> v),
                  interface_dSASA = (case get_interface_delta_sasa rc of Inl err \<Rightarrow> 0 | Inr v \<Rightarrow> v),
                  interface_dG_SASA_ratio = (case get_dG_dSASA_ratio rc of Inl err \<Rightarrow> 0 | Inr v \<Rightarrow> v * 100),
                  interface_fraction =
                    (if sasa > 0
                     then (case get_interface_delta_sasa rc of Inl err \<Rightarrow> 0 | Inr v \<Rightarrow> v) / sasa * 100
                     else 0),
                  interface_hydrophobicity =
                    interface_hydrophobicity_of (fst counted) (int (length (snd counted))),
                  interface_nres = int (length (snd counted)),
                  interface_interface_hbonds = (case get_interface_hbonds rc of Inl err \<Rightarrow> 0 | Inr v \<Rightarrow> v),
                  interface_hbond_percentage =
                    (if snd counted \<noteq> []
                     then Some ((case get_interface_hbonds rc of Inl err \<Rightarrow> 0 | Inr v \<Rightarrow> v)
                                / real (length (snd counted)) * 100)
                     else None),
                  interface_delta_unsat_hbonds = (case buns_report_sm rc of Inl err \<Rightarrow> 0 | Inr v \<Rightarrow> v),
                  interface_delta_unsat_hbonds_percentage =
                    (if snd counted \<noteq> []
                     then Some ((case buns_report_sm rc of Inl err \<Rightarrow> 0 | Inr v \<Rightarrow> v)
                                / real (length (snd counted)) * 100)
                     else None) \<rparr>,
          Some (fst counted), Some (join_with '','' (snd counted))))"
proof (intro conjI impI)
  assume "load_pose rc = Inl e"
  then show "score_interface t31 rc parsed b t = Inr (None, None, None)"
    by (simp add: score_interface_def)
next
  assume "load_pose rc = Inr n \<and> iam_apply rc = Inl e"
  then show "score_interface t31 rc parsed b t = Inl e"
    by (simp add: score_interface_def and_then_def)
next
  assume h: "load_pose rc = Inr n \<and> iam_apply rc = Inr u1
        \<and> (hotspot_residues t31 parsed b t 4 = Inl e \<or> interface_composition t31 parsed b t = Inl e)"
  then have "interface_composition t31 parsed b t = Inl e"
    using hotspot_failure_composition by blast
  with h show "score_interface t31 rc parsed b t = Inl e"
    by (simp add: score_interface_def and_then_def)
next
  assume "load_pose rc = Inr n \<and> iam_apply rc = Inr u1
        \<and> interface_composition t31 parsed b t = Inr counted \<and> iam_get_all_data rc = Inl e"
  then show "score_interface t31 rc parsed b t = Inl e"
    by (simp add: score_interface_def and_then_def)
next
  assume "load_pose rc = Inr n \<and> iam_apply rc = Inr u1
        \<and> interface_composition t31 parsed b t = Inr counted \<and> iam_get_all_data rc = Inr u2
        \<and> tem_calculate rc = Inl e"
  then show "score_interface t31 rc parsed b t = Inl e"
    by (simp add: score_interface_def and_then_def)
next
  assume "load_pose rc = Inr n \<and> iam_apply rc = Inr u1
        \<and> interface_composition t31 parsed b t = Inr counted \<and> iam_get_all_data rc = Inr u2
        \<and> tem_calculate rc = Inr bs \<and> bsasa_calculate rc = Inl e"
  then show "score_interface t31 rc parsed b t = Inl e"
    by (simp add: score_interface_def and_then_def)
next
  assume h: "load_pose rc = Inr n \<and> iam_apply rc = Inr u1
        \<and> interface_composition t31 parsed b t = Inr counted \<and> iam_get_all_data rc = Inr u2
        \<and> tem_calculate rc = Inr bs \<and> bsasa_calculate rc = Inr sasa
        \<and> (split_chains rc = Inl e
            \<or> (\<exists>cps bp. split_chains rc = Inr cps \<and> map_of (rev cps) b = Some bp
                  \<and> layer_apply rc bp = Inl e))"
  then have "surface_hydrophobicity_of rc b = Inl e"
    using surface_failures(1,3) by blast
  with h show "score_interface t31 rc parsed b t = Inl e"
    by (simp add: score_interface_def and_then_def)
next
  assume h: "load_pose rc = Inr n \<and> iam_apply rc = Inr u1
        \<and> interface_composition t31 parsed b t = Inr counted \<and> iam_get_all_data rc = Inr u2
        \<and> tem_calculate rc = Inr bs \<and> bsasa_calculate rc = Inr sasa
        \<and> (\<exists>cps. split_chains rc = Inr cps \<and> map_of (rev cps) b = None)"
  then have "surface_hydrophobicity_of rc b = Inl (KeyError b)"
    using surface_failures(2) by blast
  with h show "score_interface t31 rc parsed b t = Inl (KeyError b)"
    by (simp add: score_interface_def and_then_def)
next
  assume h: "load_pose rc = Inr n \<and> iam_apply rc = Inr u1
        \<and> interface_composition t31 parsed b t = Inr counted \<and> iam_get_all_data rc = Inr u2
        \<and> tem_calculate rc = Inr bs \<and> bsasa_calculate rc = Inr sasa
        \<and> surface_hydrophobicity_of rc b = Inr sh"
  then show "score_interface t31 rc parsed b t =
     Inr (Some \<lparr> binder_score = bs,
                  surface_hydrophobicity = sh,
                  interface_sc = (case get_sc_value rc of Inl err \<Rightarrow> 0 | Inr v \<Rightarrow> v),
                  interface_packstat = (case get_interface_packstat rc of Inl err \<Rightarrow> 0 | Inr v \<Rightarrow> v),
                  interface_dG = (case get_interface_dG rc of Inl err \<Rightarrow> 0 | Inr v \<Rightarrow> v),
                  interface_dSASA = (case get_interface_delta_sasa rc of Inl err \<Rightarrow> 0 | Inr v \<Rightarrow> v),
                  interface_dG_SASA_ratio = (case get_dG_dSASA_ratio rc of Inl err \<Rightarrow> 0 | Inr v \<Rightarrow> v * 100),
                  interface_fraction =
                    (if sasa > 0
                     then (case get_interface_delta_sasa rc of Inl err \<Rightarrow> 0 | Inr v \<Rightarrow> v) / sasa * 100
                     else 0),
                  interface_hydrophobicity =
                    interface_hydrophobicity_of (fst counted) (int (length (snd counted))),
                  interface_nres = int (length (snd counted)),
                  interface_interface_hbonds = (case get_interface_hbonds rc of Inl err \<Rightarrow> 0 | Inr v \<Rightarrow> v),
                  interface_hbond_percentage =
                    (if snd counted \<noteq> []
                     then Some ((case get_interface_hbonds rc of Inl err \<Rightarrow> 0 | Inr v \<Rightarrow> v)
                                / real (length (snd counted)) * 100)
                     else None),
                  interface_delta_unsat_hbonds = (case buns_report_sm rc of Inl err \<Rightarrow> 0 | Inr v \<Rightarrow> v),
                  interface_delta_unsat_hbonds_percentage =
                    (if snd counted \<noteq> []
                     then Some ((case buns_report_sm rc of Inl err \<Rightarrow> 0 | Inr v \<Rightarrow> v)
                                / real (length (snd counted)) * 100)
                     else None) \<rparr>,
          Some (fst counted), Some (join_with '','' (snd counted)))"
    by (intro score_interface_record) simp_all
qed

theorem isolated_features_witness:
  "get_sc_value sc_fails = Inl (RuntimeError ''no sc value'')
   \<and> (\<exists>m. score_interface t31_std sc_fails (Inr sample_complex) ''A'' ''B'' =
            Inr (Some m, Some sample_counts, Some ''A1'')
          \<and> interface_sc m = 0 \<and> interface_dG m = - 30 \<and> binder_score m = - 120
          \<and> interface_hbond_percentage m = Some 300)"
proof -
  have h: "load_pose sc_fails = Inr 5 \<and> iam_apply sc_fails = Inr ()
        \<and> interface_composition t31_std (Inr sample_complex) ''A'' ''B'' = Inr (sample_counts, [''A1''])
        \<and> iam_get_all_data sc_fails = Inr () \<and> tem_calculate sc_fails = Inr (- 120)
        \<and> bsasa_calculate sc_fails = Inr 4000 \<and> surface_hydrophobicity_of sc_fails ''A'' = Inr 1"
    by (simp add: sample_composition sc_fails_calls)
  have g: "get_interface_hbonds sc_fails = Inr 3"
    by (simp add: sc_fails_def sample_scoring_def)
  from isolated_features[where rc = sc_fails and n = 5 and ?u1.0 = "()" and ?t31.0 = t31_std
      and parsed = "Inr sample_complex" and b = "''A''" and t = "''B''"
      and counted = "(sample_counts, [''A1''])" and ?u2.0 = "()" and bs = "- 120" and sasa = 4000
      and sh = 1] h
  have "score_interface t31_std sc_fails (Inr sample_complex) ''A'' ''B'' =
     Inr (Some \<lparr> binder_score = - 120,
                  surface_hydrophobicity = 1,
                  interface_sc = (case get_sc_value sc_fails of Inl err \<Rightarrow> 0 | Inr v \<Rightarrow> v),
                  interface_packstat = (case get_interface_packstat sc_fails of Inl err \<Rightarrow> 0 | Inr v \<Rightarrow> v),
                  interface_dG = (case get_interface_dG sc_fails of Inl err \<Rightarrow> 0 | Inr v \<Rightarrow> v),
                  interface_dSASA = (case get_interface_delta_sasa sc_fails of Inl err \<Rightarrow> 0 | Inr v \<Rightarrow> v),
                  interface_dG_SASA_ratio = (case get_dG_dSASA_ratio sc_fails of Inl err \<Rightarrow> 0 | Inr v \<Rightarrow> v * 100),
                  interface_fraction =
                    (if (4000::real) > 0
                     then (case get_interface_delta_sasa sc_fails of Inl err \<Rightarrow> 0 | Inr v \<Rightarrow> v) / 4000 * 100
                     else 0),
                  interface_hydrophobicity =
                    interface_hydrophobicity_of (fst (sample_counts, [''A1''])) (int (length (snd (sample_counts, [''A1''])))),
                  interface_nres = int (length (snd (sample_counts, [''A1'']))),
                  interface_interface_hbonds = (case get_interface_hbonds sc_fails of Inl err \<Rightarrow> 0 | Inr v \<Rightarrow> v),
                  interface_hbond_percentage =
                    (if snd (sample_counts, [''A1'']) \<noteq> []
                     then Some ((case get_interface_hbonds sc_fails of Inl err \<Rightarrow> 0 | Inr v \<Rightarrow> v)
                                / real (length (snd (sample_counts, [''A1'']))) * 100)
                     else None),
                  interface_delta_unsat_hbonds = (case buns_report_sm sc_fails of Inl err \<Rightarrow> 0 | Inr v \<Rightarrow> v),
                  interface_delta_unsat_hbonds_percentage =
                    (if snd (sample_counts, [''A1'']) \<noteq> []
                     then Some ((case buns_report_sm sc_fails of Inl err \<Rightarrow> 0 | Inr v \<Rightarrow> v)
                                / real (length (snd (sample_counts, [''A1'']))) * 100)
                     else None) \<rparr>,
          Some (fst (sample_counts, [''A1''])), Some (join_with '','' (snd (sample_counts, [''A1'']))))"
    by blast
  then have "\<exists>m. score_interface t31_std sc_fails (Inr sample_complex) ''A'' ''B'' =
            Inr (Some m, Some sample_counts, Some ''A1'')
          \<and> interface_sc m = 0 \<and> interface_dG m = - 30 \<and> binder_score m = - 120
          \<and> interface_hbond_percentage m = Some 300"
    by (simp add: sc_fails_calls g)
  with sc_fails_calls(7) show ?thesis by blast
qed

section \<open>Properties of the per-submission pipeline\<close>


lemma run_stages_shape:
  "\<exists>d f c e. run_stages env i q p dp sp b t = (i, q, d, f, c, e)
     \<and> ((e = None \<and> d \<noteq> None \<and> f \<noteq> None \<and> c \<noteq> None)
        \<or> (e \<noteq> None \<and> d = None \<and> f = None \<and> c = None))"
  by (simp add: run_stages_def failure_def split: sum.splits)


text \<open>
  A row without the column \<open>id\<close> is outside the input format (a table with at least the
  columns \<open>id\<close> and \<open>sequence\<close>); on such a row the handler of the outer \<open>try\<close> itself
  raises.
\<close>

lemma process_submission_missing_id:
  "submission_data ''id'' = None \<Longrightarrow>
     process_submission env submission_data pdb_files dssp_path save_path b t =
       Inl (UnboundLocalError ''submission_id'')"
  by (simp add: process_submission_def)

lemma process_submission_shape:
  assumes "submission_data ''id'' = Some i" and "submission_data ''sequence'' = Some q"
  shows "\<exists>d f c e. process_submission env submission_data pdb_files dssp_path save_path b t =
                     Inr (i, q, d, f, c, e)
           \<and> ((e = None \<and> d \<noteq> None \<and> f \<noteq> None \<and> c \<noteq> None)
              \<or> (e \<noteq> None \<and> d = None \<and> f = None \<and> c = None))"
proof (cases "lookup_id pdb_files i")
  case None
  then show ?thesis using assms by (simp add: process_submission_def failure_def)
next
  case (Some p)
  from run_stages_shape[of env i q p dssp_path save_path b t]
  show ?thesis using assms Some by (simp add: process_submission_def)
qed


text \<open>
  Claim C2.  For every submission, a row with its \<open>id\<close> and its \<open>sequence\<close>, whatever
  structure lookup is given and whatever each stage and \<open>os.makedirs\<close> return or raise,
  \<open>process_submission\<close> returns a tuple that starts with the id and the sequence: either
  the three stage results with no error message, or three \<open>None\<close> and an error message.
  No exception leaves the function.
\<close>

theorem process_submission_returns:
  assumes "submission_data ''id'' = Some i" and "submission_data ''sequence'' = Some q"
  shows "\<exists>d f c e. process_submission env submission_data pdb_files dssp_path save_path b t =
                     Inr (i, q, d, f, c, e)
           \<and> ((e = None \<and> d \<noteq> None \<and> f \<noteq> None \<and> c \<noteq> None)
              \<or> (e \<noteq> None \<and> d = None \<and> f = None \<and> c = None))"
  using assms by (rule process_submission_shape)

theorem process_submission_returns_witness:
  "\<exists>d f c e. process_submission sample_stages [''id'' \<mapsto> VStr ''s1'', ''sequence'' \<mapsto> VStr ''MKT'']
       [''s1'' \<mapsto> ''/data/round1/s1.pdb''] ''/root/bindcraft/functions/dssp'' ''/out'' ''A'' ''B'' =
     Inr (VStr ''s1'', VStr ''MKT'', d, f, c, e)"
  using process_submission_returns[of "[''id'' \<mapsto> VStr ''s1'', ''sequence'' \<mapsto> VStr ''MKT'']" "VStr ''s1''" "VStr ''MKT''"
      sample_stages "[''s1'' \<mapsto> ''/data/round1/s1.pdb'']" "''/root/bindcraft/functions/dssp''" "''/out''" "''A''" "''B''"]
  by auto

section \<open>Properties of the batch orchestrator\<close>



























section \<open>Properties of the batch entry point\<close>











end
